theory Spec2Isabelle
  imports Complex_Main
begin

section \<open>Technology stack detection (src/lib/analyzer/tech-stack-detector.js)\<close>

text \<open>
  A shallow embedding of the class \<^verbatim>\<open>TechStackDetector\<close>. Confidence values are the
  decimal literals of the source, taken as rationals: every comparison of the source is
  between such literals (\<^verbatim>\<open>confidence >= 0.7\<close>) or is the sign of a difference of two
  of them (the sort comparator), and both agree with the rationals.
\<close>

subsection \<open>Strings and JavaScript values\<close>

text \<open>\<^verbatim>\<open>String.prototype.startsWith\<close> and \<^verbatim>\<open>String.prototype.includes\<close>.\<close>

fun startsWith :: "string \<Rightarrow> string \<Rightarrow> bool" where
  "startsWith s [] = True"
| "startsWith [] (c # cs) = False"
| "startsWith (d # ds) (c # cs) = (d = c \<and> startsWith ds cs)"

fun str_includes :: "string \<Rightarrow> string \<Rightarrow> bool" where
  "str_includes [] pat = (pat = [])"
| "str_includes (d # ds) pat = (startsWith (d # ds) pat \<or> str_includes ds pat)"

text \<open>\<^verbatim>\<open>[...new Set(xs)]\<close>: duplicates dropped, first occurrences kept in order.\<close>

fun uniq :: "string list \<Rightarrow> string list" where
  "uniq [] = []"
| "uniq (x # xs) = x # filter (\<lambda>y. y \<noteq> x) (uniq xs)"

text \<open>\<^verbatim>\<open>script.split(' ')[0]\<close>: the text before the first blank.\<close>

definition first_word :: "string \<Rightarrow> string" where
  "first_word s = takeWhile (\<lambda>c. c \<noteq> CHR '' '') s"

text \<open>A value produced by \<^verbatim>\<open>JSON.parse\<close>, and its truthiness.\<close>

datatype jsval =
    JNull
  | JBool bool
  | JNum rat
  | JStr string
  | JArr "jsval list"
  | JObj "(string \<times> jsval) list"

fun truthy :: "jsval \<Rightarrow> bool" where
  "truthy JNull = False"
| "truthy (JBool b) = b"
| "truthy (JNum n) = (n \<noteq> 0)"
| "truthy (JStr s) = (s \<noteq> [])"
| "truthy (JArr xs) = True"
| "truthy (JObj kvs) = True"

text \<open>
  An object is the list of its members in the order \<^verbatim>\<open>Object.keys\<close> and
  \<^verbatim>\<open>Object.values\<close> enumerate them; should a key be repeated, the last member wins,
  as in \<^verbatim>\<open>JSON.parse\<close>. \<open>obj_truthy o k\<close> is the test \<^verbatim>\<open>o[k]\<close> in a
  condition (a missing member is \<^verbatim>\<open>undefined\<close>, which is falsy). None of the keys
  the detector looks up is a member of \<^verbatim>\<open>Object.prototype\<close>.
\<close>

type_synonym jsobj = "(string \<times> jsval) list"

definition obj_get :: "jsobj \<Rightarrow> string \<Rightarrow> jsval option" where
  "obj_get kvs k = map_of (rev kvs) k"

definition obj_truthy :: "jsobj \<Rightarrow> string \<Rightarrow> bool" where
  "obj_truthy kvs k = (case obj_get kvs k of None \<Rightarrow> False | Some v \<Rightarrow> truthy v)"

definition obj_keys :: "jsobj \<Rightarrow> string list" where
  "obj_keys kvs = map fst kvs"

definition obj_values :: "jsobj \<Rightarrow> jsval list" where
  "obj_values kvs = List.map_filter (obj_get kvs) (uniq (map fst kvs))"

text \<open>\<^verbatim>\<open>{ ...a, ...b }\<close>: the members of \<open>b\<close> override those of \<open>a\<close>.\<close>

definition obj_spread :: "jsobj \<Rightarrow> jsobj \<Rightarrow> jsobj" where
  "obj_spread a b = a @ b"

definition opt_truthy :: "jsval option \<Rightarrow> bool" where
  "opt_truthy v = (case v of None \<Rightarrow> False | Some w \<Rightarrow> truthy w)"

datatype js_error = TypeError

subsection \<open>The project as the detector sees it\<close>

text \<open>
  The parsed \<^verbatim>\<open>package.json\<close>, taken to be an object whose members
  \<^verbatim>\<open>dependencies\<close>, \<^verbatim>\<open>devDependencies\<close> and \<^verbatim>\<open>scripts\<close> are objects; a
  missing one is the empty object, which is what \<^verbatim>\<open>x || {}\<close> makes of it (and an
  empty \<^verbatim>\<open>scripts\<close> gives the same evidence as a missing one). The values of these
  members are arbitrary JSON values. \<^verbatim>\<open>bin\<close>, \<^verbatim>\<open>main\<close> and \<^verbatim>\<open>jest\<close> are only
  tested for truthiness.
\<close>

record package =
  pkg_dependencies :: jsobj
  pkg_devDependencies :: jsobj
  pkg_scripts :: jsobj
  pkg_bin :: "jsval option"
  pkg_main :: "jsval option"
  pkg_jest :: "jsval option"

text \<open>
  The file system probes, each a total function of the path relative to the project root
  (the source wraps every one of them in \<^verbatim>\<open>try/catch\<close>):
  \<^item> \<open>glob\<close>: the matches of the \<^verbatim>\<open>glob\<close> library for a pattern (empty when it fails);
  \<^item> \<open>is_file\<close>, \<open>is_dir\<close>: \<^verbatim>\<open>fs.stat\<close> succeeded and reports a file, a directory;
  \<^item> \<open>read_file\<close>: \<^verbatim>\<open>fs.readFile\<close>, \<open>None\<close> when it throws;
  \<^item> \<open>package_json\<close>: what \<^verbatim>\<open>readPackageJson\<close> returns, \<open>None\<close> for \<^verbatim>\<open>null\<close>;
  \<^item> \<open>python_deps\<close>: what \<^verbatim>\<open>readPythonDependencies\<close> returns (it catches every error
    of its own and always returns an array);
  \<^item> \<open>service_lines\<close>: the number of matches of the regular expression
    \<^verbatim>\<open>/^\s*\w+:\s*$/gm\<close> in a text.
\<close>

record project =
  glob :: "string \<Rightarrow> string list"
  is_file :: "string \<Rightarrow> bool"
  is_dir :: "string \<Rightarrow> bool"
  read_file :: "string \<Rightarrow> string option"
  package_json :: "package option"
  python_deps :: "string list"
  service_lines :: "string \<Rightarrow> nat"

definition fileExists :: "project \<Rightarrow> string \<Rightarrow> bool" where
  "fileExists p f = is_file p f"

definition dirExists :: "project \<Rightarrow> string \<Rightarrow> bool" where
  "dirExists p d = is_dir p d"

definition findFiles :: "project \<Rightarrow> string \<Rightarrow> nat \<Rightarrow> string list" where
  "findFiles p pat limit = (if limit \<noteq> 0 then take limit (glob p pat) else glob p pat)"

definition readPackageJson :: "project \<Rightarrow> package option" where
  "readPackageJson p = package_json p"

definition readPythonDependencies :: "project \<Rightarrow> string list" where
  "readPythonDependencies p = python_deps p"

subsection \<open>Evidence and detector specifications\<close>

text \<open>
  One record holds the fields of all the evidence objects the source builds; a field a
  category does not have is never read by that category's scoring functions and is left
  empty. \<open>importStmts\<close> is the field \<^verbatim>\<open>imports\<close>.
\<close>

record evidence =
  files :: "string list"
  configs :: "string list"
  packageIndicators :: "string list"
  indicators :: "string list"
  dependencies :: "string list"
  devDependencies :: "string list"
  codePatterns :: "string list"
  relatedPackages :: "string list"
  scripts :: "string list"
  importStmts :: "string list"
  isBackendOnly :: bool
  isFrontendOnly :: bool
  connectionStrings :: "string list"
  dockerServices :: "string list"
  envVars :: "string list"
  directories :: "string list"
  packageJsonConfig :: bool
  patterns :: "string list"

definition empty_evidence :: evidence where
  "empty_evidence = \<lparr> files = [], configs = [], packageIndicators = [], indicators = [],
     dependencies = [], devDependencies = [], codePatterns = [], relatedPackages = [],
     scripts = [], importStmts = [], isBackendOnly = False, isFrontendOnly = False,
     connectionStrings = [], dockerServices = [], envVars = [], directories = [],
     packageJsonConfig = False, patterns = [] \<rparr>"

text \<open>
  A detector specification: the members the detection loops read (\<open>None\<close> when the
  source's object has no such member), the declared \<^verbatim>\<open>exclusiveWith\<close> set, and the
  scoring function.
\<close>

record detector =
  cfg_patterns :: "string list option"
  cfg_configs :: "string list option"
  cfg_packageIndicators :: "string list option"
  cfg_dependencies :: "string list option"
  cfg_devDependencies :: "string list option"
  cfg_relatedPackages :: "string list option"
  cfg_scripts :: "string list option"
  cfg_files :: "string list option"
  cfg_indicators :: "string list option"
  cfg_codePatterns :: "string list option"
  cfg_imports :: "string list option"
  cfg_dockerServices :: "string list option"
  cfg_connectionStrings :: "string list option"
  cfg_envVars :: "string list option"
  cfg_directories :: "string list option"
  cfg_packageJsonConfig :: "string option"
  cfg_exclusiveWith :: "string list option"
  confidence :: "evidence \<Rightarrow> rat"

definition no_cfg :: detector where
  "no_cfg = \<lparr> cfg_patterns = None, cfg_configs = None, cfg_packageIndicators = None,
     cfg_dependencies = None, cfg_devDependencies = None, cfg_relatedPackages = None,
     cfg_scripts = None, cfg_files = None, cfg_indicators = None, cfg_codePatterns = None,
     cfg_imports = None, cfg_dockerServices = None, cfg_connectionStrings = None,
     cfg_envVars = None, cfg_directories = None, cfg_packageJsonConfig = None,
     cfg_exclusiveWith = None, confidence = (\<lambda>e. 0) \<rparr>"


subsection \<open>The detector registry\<close>

text \<open>Language detectors.\<close>

definition javascript_confidence :: "evidence \<Rightarrow> rat" where
  "javascript_confidence e =
     (if ''package.json'' \<in> set (configs e) then 1.0
      else if length (files e) > 0 then 0.8 else 0)"

definition typescript_confidence :: "evidence \<Rightarrow> rat" where
  "typescript_confidence e =
     (if ''tsconfig.json'' \<in> set (configs e) then 1.0
      else if length (packageIndicators e) > 0 then 0.9
      else if length (files e) > 0 then 0.7 else 0)"

definition python_confidence :: "evidence \<Rightarrow> rat" where
  "python_confidence e =
     (if length (configs e) > 0 then 1.0
      else if ''manage.py'' \<in> set (indicators e) then 0.95
      else if length (files e) > 5 then 0.8 else 0.6)"

definition java_confidence :: "evidence \<Rightarrow> rat" where
  "java_confidence e =
     (if length (configs e) > 0 then 1.0
      else if length (files e) > 0 then 0.5 else 0)"

definition go_confidence :: "evidence \<Rightarrow> rat" where
  "go_confidence e =
     (if ''go.mod'' \<in> set (configs e) then 1.0
      else if length (files e) > 0 then 0.6 else 0)"

definition languageDetectors :: "(string \<times> detector) list" where
  "languageDetectors =
   [(''javascript'', no_cfg\<lparr> cfg_patterns := Some [''*.js'', ''*.mjs'', ''*.cjs''],
       cfg_configs := Some [''package.json'', ''.npmrc''],
       confidence := javascript_confidence \<rparr>),
    (''typescript'', no_cfg\<lparr> cfg_patterns := Some [''*.ts'', ''*.tsx'', ''*.d.ts''],
       cfg_configs := Some [''tsconfig.json'', ''tsconfig.*.json''],
       cfg_packageIndicators := Some [''typescript'', ''@types/''],
       confidence := typescript_confidence \<rparr>),
    (''python'', no_cfg\<lparr> cfg_patterns := Some [''*.py''],
       cfg_configs := Some [''requirements.txt'', ''setup.py'', ''pyproject.toml'', ''Pipfile''],
       cfg_indicators := Some [''__init__.py'', ''manage.py''],
       confidence := python_confidence \<rparr>),
    (''java'', no_cfg\<lparr> cfg_patterns := Some [''*.java''],
       cfg_configs := Some [''pom.xml'', ''build.gradle'', ''build.gradle.kts''],
       confidence := java_confidence \<rparr>),
    (''go'', no_cfg\<lparr> cfg_patterns := Some [''*.go''],
       cfg_configs := Some [''go.mod'', ''go.sum''],
       confidence := go_confidence \<rparr>)]"

text \<open>Frontend framework detectors.\<close>

definition react_confidence :: "evidence \<Rightarrow> rat" where
  "react_confidence e =
     (if \<not> isBackendOnly e \<and> ''react'' \<in> set (dependencies e) then 1.0
      else if \<not> isBackendOnly e \<and> ''react-dom'' \<in> set (dependencies e) then 0.95
      else if isBackendOnly e then 0
      else 0)"

definition vue_confidence :: "evidence \<Rightarrow> rat" where
  "vue_confidence e =
     (if list_ex (\<lambda>d. startsWith d ''vue'') (dependencies e) then 1.0
      else if length (files e) > 0 then 0.9
      else 0)"

definition angular_confidence :: "evidence \<Rightarrow> rat" where
  "angular_confidence e =
     (if ''@angular/core'' \<in> set (dependencies e) then 1.0
      else if ''angular.json'' \<in> set (configs e) then 0.95
      else 0)"

definition nextjs_confidence :: "evidence \<Rightarrow> rat" where
  "nextjs_confidence e =
     (if ''next'' \<in> set (dependencies e) then 1.0
      else if length (scripts e) > 0 \<and> list_ex (\<lambda>s. str_includes s ''next'') (scripts e) then 0.95
      else if length (configs e) > 0 then 0.9
      else 0)"

definition frontendDetectors :: "(string \<times> detector) list" where
  "frontendDetectors =
   [(''react'', no_cfg\<lparr> cfg_dependencies := Some [''react'', ''react-dom''],
       cfg_devDependencies := Some [''@types/react'', ''@testing-library/react''],
       cfg_files := Some [''*.jsx'', ''*.tsx''],
       cfg_exclusiveWith := Some [''vue'', ''angular'', ''svelte''],
       confidence := react_confidence \<rparr>),
    (''vue'', no_cfg\<lparr> cfg_dependencies := Some [''vue'', ''vue@2'', ''vue@3''],
       cfg_files := Some [''*.vue''],
       cfg_configs := Some [''vue.config.js'', ''vite.config.js''],
       cfg_indicators := Some [''components/'', ''views/''],
       cfg_exclusiveWith := Some [''react'', ''angular'', ''svelte''],
       confidence := vue_confidence \<rparr>),
    (''angular'', no_cfg\<lparr> cfg_dependencies := Some [''@angular/core'', ''@angular/common''],
       cfg_files := Some [''*.component.ts'', ''*.module.ts'', ''*.service.ts''],
       cfg_configs := Some [''angular.json'', ''.angular-cli.json''],
       cfg_indicators := Some [''src/app/''],
       cfg_exclusiveWith := Some [''react'', ''vue'', ''svelte''],
       confidence := angular_confidence \<rparr>),
    (''nextjs'', no_cfg\<lparr> cfg_dependencies := Some [''next''],
       cfg_devDependencies := Some [''eslint-config-next''],
       cfg_scripts := Some [''next dev'', ''next build'', ''next start''],
       cfg_configs := Some [''next.config.js'', ''next.config.mjs'', ''next.config.ts''],
       cfg_directories := Some [''pages/'', ''app/'', ''public/''],
       confidence := nextjs_confidence \<rparr>)]"

text \<open>Backend framework detectors.\<close>

definition express_confidence :: "evidence \<Rightarrow> rat" where
  "express_confidence e =
     (if ''express'' \<in> set (dependencies e) then 1.0
      else let relatedCount = length (relatedPackages e) in
        if relatedCount \<ge> 3 then 0.9
        else if relatedCount \<ge> 2 then 0.7
        else if length (codePatterns e) > 0 then 0.8
        else 0)"

definition fastify_confidence :: "evidence \<Rightarrow> rat" where
  "fastify_confidence e =
     (if ''fastify'' \<in> set (dependencies e) then 1.0
      else if length (codePatterns e) > 0 then 0.7 else 0)"

definition koa_confidence :: "evidence \<Rightarrow> rat" where
  "koa_confidence e =
     (if ''koa'' \<in> set (dependencies e) then 1.0
      else if length (codePatterns e) > 0 then 0.7 else 0)"

definition nestjs_confidence :: "evidence \<Rightarrow> rat" where
  "nestjs_confidence e =
     (if ''@nestjs/core'' \<in> set (dependencies e) then 1.0
      else if ''nest-cli.json'' \<in> set (configs e) then 0.9
      else if length (files e) > 3 then 0.8 else 0)"

definition fastapi_confidence :: "evidence \<Rightarrow> rat" where
  "fastapi_confidence e =
     (if ''fastapi'' \<in> set (dependencies e) then 1.0
      else if ''uvicorn'' \<in> set (relatedPackages e) \<and> ''pydantic'' \<in> set (relatedPackages e) then 0.95
      else if length (codePatterns e) > 0 then 0.9
      else if length (importStmts e) > 0 then 0.85
      else 0)"

definition django_confidence :: "evidence \<Rightarrow> rat" where
  "django_confidence e =
     (if ''django'' \<in> set (dependencies e) \<or> ''Django'' \<in> set (dependencies e) then 1.0
      else if ''manage.py'' \<in> set (files e) then 0.98
      else if list_ex (\<lambda>i. i \<in> set (indicators e)) (indicators e) then 0.95
      else if ''djangorestframework'' \<in> set (relatedPackages e) then 0.9
      else 0)"

definition flask_confidence :: "evidence \<Rightarrow> rat" where
  "flask_confidence e =
     (if ''flask'' \<in> set (dependencies e) \<or> ''Flask'' \<in> set (dependencies e) then 1.0
      else if length (codePatterns e) > 0 then 0.9
      else if length (importStmts e) > 0 then 0.85
      else if list_ex (\<lambda>pkg. pkg \<in> set [''flask-restful'', ''flask-cors'']) (relatedPackages e) then 0.8
      else 0)"

definition backendDetectors :: "(string \<times> detector) list" where
  "backendDetectors =
   [(''express'', no_cfg\<lparr> cfg_dependencies := Some [''express''],
       cfg_relatedPackages := Some [''body-parser'', ''cors'', ''helmet'', ''morgan'',
                                    ''compression'', ''cookie-parser''],
       cfg_codePatterns := Some [''express()'', ''app.use('', ''app.get('', ''app.post('',
                                 ''app.listen(''],
       cfg_files := Some [''app.js'', ''server.js'', ''index.js''],
       cfg_exclusiveWith := Some [''fastify'', ''koa'', ''hapi''],
       confidence := express_confidence \<rparr>),
    (''fastify'', no_cfg\<lparr> cfg_dependencies := Some [''fastify''],
       cfg_codePatterns := Some [''fastify()'', ''fastify.register''],
       cfg_exclusiveWith := Some [''express'', ''koa'', ''hapi''],
       confidence := fastify_confidence \<rparr>),
    (''koa'', no_cfg\<lparr> cfg_dependencies := Some [''koa''],
       cfg_codePatterns := Some [''koa()'', ''koa2'', ''app.use''],
       cfg_relatedPackages := Some [''koa-router'', ''koa-bodyparser'', ''koa-cors''],
       cfg_exclusiveWith := Some [''express'', ''fastify'', ''hapi''],
       confidence := koa_confidence \<rparr>),
    (''nestjs'', no_cfg\<lparr> cfg_dependencies := Some [''@nestjs/core'', ''@nestjs/common''],
       cfg_files := Some [''*.controller.ts'', ''*.service.ts'', ''*.module.ts''],
       cfg_configs := Some [''nest-cli.json''],
       cfg_indicators := Some [''src/modules/'', ''src/controllers/''],
       confidence := nestjs_confidence \<rparr>),
    (''fastapi'', no_cfg\<lparr> cfg_dependencies := Some [''fastapi''],
       cfg_relatedPackages := Some [''uvicorn'', ''starlette'', ''pydantic''],
       cfg_codePatterns := Some [''FastAPI()'', ''@app.get'', ''@app.post'', ''@app.put'',
                                 ''@app.delete''],
       cfg_files := Some [''main.py'', ''app.py'', ''**/main.py'', ''**/app.py''],
       cfg_configs := Some [''pyproject.toml'', ''requirements.txt''],
       cfg_imports := Some [''from fastapi'', ''import fastapi''],
       cfg_exclusiveWith := Some [''django'', ''flask''],
       confidence := fastapi_confidence \<rparr>),
    (''django'', no_cfg\<lparr> cfg_dependencies := Some [''django'', ''Django''],
       cfg_relatedPackages := Some [''djangorestframework'', ''django-cors-headers'',
                                    ''psycopg2'', ''psycopg2-binary''],
       cfg_files := Some [''manage.py'', ''settings.py'', ''urls.py'', ''**/settings.py'',
                          ''**/urls.py''],
       cfg_configs := Some [''django.conf'', ''requirements.txt'', ''pyproject.toml''],
       cfg_indicators := Some [''*/migrations/'', ''apps/'', ''settings/''],
       cfg_imports := Some [''from django'', ''import django'', ''django.conf''],
       cfg_exclusiveWith := Some [''fastapi'', ''flask''],
       confidence := django_confidence \<rparr>),
    (''flask'', no_cfg\<lparr> cfg_dependencies := Some [''flask'', ''Flask''],
       cfg_relatedPackages := Some [''flask-restful'', ''flask-cors'', ''flask-sqlalchemy'',
                                    ''gunicorn''],
       cfg_codePatterns := Some [''Flask(__name__)'', ''@app.route'', ''app = Flask''],
       cfg_files := Some [''app.py'', ''main.py'', ''run.py'', ''**/app.py''],
       cfg_configs := Some [''requirements.txt'', ''pyproject.toml''],
       cfg_imports := Some [''from flask'', ''import flask''],
       cfg_exclusiveWith := Some [''fastapi'', ''django''],
       confidence := flask_confidence \<rparr>)]"

text \<open>Database detectors.\<close>

definition mongodb_confidence :: "evidence \<Rightarrow> rat" where
  "mongodb_confidence e =
     (if ''mongoose'' \<in> set (dependencies e) then 1.0
      else if ''mongodb'' \<in> set (dependencies e) then 0.95
      else if length (dockerServices e) > 0 then 0.8
      else if length (connectionStrings e) > 0 then 0.9
      else 0)"

definition postgresql_confidence :: "evidence \<Rightarrow> rat" where
  "postgresql_confidence e =
     (if ''pg'' \<in> set (dependencies e) then 1.0
      else if list_ex (\<lambda>d. d \<in> set [''psycopg2'', ''psycopg2-binary'', ''psycopg'', ''asyncpg''])
                (dependencies e) then 1.0
      else if ''sqlmodel'' \<in> set (dependencies e) then 0.95
      else if ''sqlalchemy'' \<in> set (dependencies e) then 0.9
      else if ''typeorm'' \<in> set (dependencies e) then 0.9
      else if length (dockerServices e) > 0 then 0.85
      else 0)"

definition mysql_confidence :: "evidence \<Rightarrow> rat" where
  "mysql_confidence e =
     (if list_ex (\<lambda>d. startsWith d ''mysql'') (dependencies e) then 1.0
      else if length (dockerServices e) > 0 then 0.8
      else 0)"

definition redis_confidence :: "evidence \<Rightarrow> rat" where
  "redis_confidence e =
     (if ''ioredis'' \<in> set (dependencies e) then 1.0
      else if ''redis'' \<in> set (dependencies e) then 0.95
      else if ''bull'' \<in> set (dependencies e) then 0.9
      else 0)"

definition databaseDetectors :: "(string \<times> detector) list" where
  "databaseDetectors =
   [(''mongodb'', no_cfg\<lparr> cfg_dependencies := Some [''mongodb'', ''mongoose''],
       cfg_connectionStrings := Some [''mongodb://'', ''mongodb+srv://''],
       cfg_dockerServices := Some [''mongo'', ''mongodb''],
       cfg_envVars := Some [''MONGO_URI'', ''MONGODB_URI'', ''DATABASE_URL''],
       confidence := mongodb_confidence \<rparr>),
    (''postgresql'', no_cfg\<lparr> cfg_dependencies := Some [''pg'', ''postgres'', ''typeorm'',
         ''sequelize'', ''prisma'', ''@prisma/client'', ''psycopg2'', ''psycopg2-binary'',
         ''psycopg'', ''asyncpg'', ''sqlmodel'', ''sqlalchemy''],
       cfg_connectionStrings := Some [''postgres://'', ''postgresql://''],
       cfg_dockerServices := Some [''postgres'', ''postgresql''],
       cfg_envVars := Some [''DATABASE_URL'', ''POSTGRES_DB'', ''PG_CONNECTION'',
                            ''POSTGRESQL_URL''],
       confidence := postgresql_confidence \<rparr>),
    (''mysql'', no_cfg\<lparr> cfg_dependencies := Some [''mysql'', ''mysql2''],
       cfg_connectionStrings := Some [''mysql://''],
       cfg_dockerServices := Some [''mysql'', ''mariadb''],
       confidence := mysql_confidence \<rparr>),
    (''redis'', no_cfg\<lparr> cfg_dependencies := Some [''redis'', ''ioredis'', ''bull'', ''bee-queue''],
       cfg_connectionStrings := Some [''redis://''],
       cfg_dockerServices := Some [''redis''],
       confidence := redis_confidence \<rparr>)]"

text \<open>Testing framework detectors.\<close>

definition jest_confidence :: "evidence \<Rightarrow> rat" where
  "jest_confidence e =
     (if ''jest'' \<in> set (dependencies e) then 1.0
      else if length (configs e) > 0 then 0.95
      else if packageJsonConfig e then 0.95
      else if length (files e) > 0 then 0.7 else 0)"

definition mocha_confidence :: "evidence \<Rightarrow> rat" where
  "mocha_confidence e =
     (if ''mocha'' \<in> set (dependencies e) then 1.0
      else if length (configs e) > 0 then 0.9
      else 0)"

definition cypress_confidence :: "evidence \<Rightarrow> rat" where
  "cypress_confidence e =
     (if ''cypress'' \<in> set (dependencies e) then 1.0
      else if length (configs e) > 0 then 0.9
      else 0)"

definition playwright_confidence :: "evidence \<Rightarrow> rat" where
  "playwright_confidence e =
     (if ''@playwright/test'' \<in> set (dependencies e) then 1.0
      else if length (configs e) > 0 then 0.9 else 0)"

definition pytest_confidence :: "evidence \<Rightarrow> rat" where
  "pytest_confidence e =
     (if ''pytest'' \<in> set (dependencies e) then 1.0
      else if list_ex (\<lambda>c. c \<in> set [''pytest.ini'', ''pyproject.toml'']) (configs e) then 0.9
      else if length (files e) > 0 then 0.8
      else if length (directories e) > 0 then 0.7
      else 0)"

definition unittest_confidence :: "evidence \<Rightarrow> rat" where
  "unittest_confidence e =
     (if length (codePatterns e) > 0 then 0.9
      else if length (files e) > 0 \<and> length (directories e) > 0 then 0.7
      else if length (files e) > 0 then 0.5 else 0)"

definition testingDetectors :: "(string \<times> detector) list" where
  "testingDetectors =
   [(''jest'', no_cfg\<lparr> cfg_dependencies := Some [''jest'', ''@types/jest''],
       cfg_devDependencies := Some [''jest'', ''ts-jest'', ''babel-jest''],
       cfg_configs := Some [''jest.config.js'', ''jest.config.ts'', ''jest.config.json''],
       cfg_packageJsonConfig := Some ''jest'',
       cfg_files := Some [''*.test.js'', ''*.test.ts'', ''*.spec.js'', ''*.spec.ts''],
       confidence := jest_confidence \<rparr>),
    (''mocha'', no_cfg\<lparr> cfg_dependencies := Some [''mocha''],
       cfg_devDependencies := Some [''mocha'', ''chai'', ''sinon''],
       cfg_configs := Some [''.mocharc.js'', ''.mocharc.json'', ''mocha.opts''],
       cfg_files := Some [''*.test.js'', ''*.spec.js''],
       confidence := mocha_confidence \<rparr>),
    (''cypress'', no_cfg\<lparr> cfg_dependencies := Some [''cypress''],
       cfg_configs := Some [''cypress.json'', ''cypress.config.js''],
       cfg_directories := Some [''cypress/integration'', ''cypress/e2e''],
       confidence := cypress_confidence \<rparr>),
    (''playwright'', no_cfg\<lparr> cfg_dependencies := Some [''@playwright/test''],
       cfg_configs := Some [''playwright.config.js'', ''playwright.config.ts''],
       confidence := playwright_confidence \<rparr>),
    (''pytest'', no_cfg\<lparr> cfg_dependencies := Some [''pytest''],
       cfg_relatedPackages := Some [''pytest-cov'', ''pytest-asyncio'', ''pytest-mock'', ''httpx''],
       cfg_configs := Some [''pytest.ini'', ''pyproject.toml'', ''setup.cfg''],
       cfg_files := Some [''test_*.py'', ''*_test.py'', ''tests/*.py''],
       cfg_directories := Some [''tests/'', ''test/''],
       confidence := pytest_confidence \<rparr>),
    (''unittest'', no_cfg\<lparr> cfg_files := Some [''test_*.py'', ''*_test.py'', ''tests/*.py''],
       cfg_directories := Some [''tests/'', ''test/''],
       cfg_codePatterns := Some [''unittest.TestCase'', ''import unittest'', ''from unittest''],
       confidence := unittest_confidence \<rparr>)]"

text \<open>Build tool detectors.\<close>

definition webpack_confidence :: "evidence \<Rightarrow> rat" where
  "webpack_confidence e =
     (if ''webpack'' \<in> set (dependencies e) then 1.0
      else if length (configs e) > 0 then 0.8 else 0)"

definition vite_confidence :: "evidence \<Rightarrow> rat" where
  "vite_confidence e =
     (if ''vite'' \<in> set (dependencies e) then 1.0
      else if length (configs e) > 0 then 0.9 else 0)"

definition poetry_confidence :: "evidence \<Rightarrow> rat" where
  "poetry_confidence e =
     (if ''poetry.lock'' \<in> set (configs e) then 1.0
      else if ''pyproject.toml'' \<in> set (configs e) then 0.8
      else 0)"

definition uv_confidence :: "evidence \<Rightarrow> rat" where
  "uv_confidence e =
     (if ''uv.lock'' \<in> set (configs e) then 1.0
      else if ''.python-version'' \<in> set (indicators e) then 0.7
      else 0)"

definition setuptools_confidence :: "evidence \<Rightarrow> rat" where
  "setuptools_confidence e =
     (if ''setup.py'' \<in> set (configs e) then 1.0
      else if ''setup.cfg'' \<in> set (configs e) then 0.9
      else 0)"

definition buildToolDetectors :: "(string \<times> detector) list" where
  "buildToolDetectors =
   [(''webpack'', no_cfg\<lparr> cfg_dependencies := Some [''webpack'', ''webpack-cli''],
       cfg_configs := Some [''webpack.config.js'', ''webpack.config.ts''],
       confidence := webpack_confidence \<rparr>),
    (''vite'', no_cfg\<lparr> cfg_dependencies := Some [''vite''],
       cfg_configs := Some [''vite.config.js'', ''vite.config.ts''],
       confidence := vite_confidence \<rparr>),
    (''poetry'', no_cfg\<lparr> cfg_configs := Some [''pyproject.toml'', ''poetry.lock''],
       cfg_indicators := Some [''poetry.toml''],
       confidence := poetry_confidence \<rparr>),
    (''uv'', no_cfg\<lparr> cfg_configs := Some [''pyproject.toml'', ''uv.lock''],
       cfg_indicators := Some [''.python-version'', ''uv.toml''],
       confidence := uv_confidence \<rparr>),
    (''setuptools'', no_cfg\<lparr> cfg_configs := Some [''setup.py'', ''setup.cfg'', ''pyproject.toml''],
       cfg_files := Some [''MANIFEST.in''],
       confidence := setuptools_confidence \<rparr>)]"

text \<open>Deployment detectors.\<close>

definition docker_confidence :: "evidence \<Rightarrow> rat" where
  "docker_confidence e =
     (if ''Dockerfile'' \<in> set (files e) then 1.0
      else if list_ex (\<lambda>f. str_includes f ''docker-compose'') (files e) then 0.95
      else 0)"

definition kubernetes_confidence :: "evidence \<Rightarrow> rat" where
  "kubernetes_confidence e =
     (if length (files e) > 0 then 0.9
      else if length (patterns e) > 0 then 0.95
      else 0)"

definition githubActions_confidence :: "evidence \<Rightarrow> rat" where
  "githubActions_confidence e = (if length (files e) > 0 then 1.0 else 0)"

definition deploymentDetectors :: "(string \<times> detector) list" where
  "deploymentDetectors =
   [(''docker'', no_cfg\<lparr> cfg_files := Some [''Dockerfile'', ''docker-compose.yml'',
                                             ''docker-compose.yaml''],
       cfg_configs := Some [''.dockerignore''],
       confidence := docker_confidence \<rparr>),
    (''kubernetes'', no_cfg\<lparr> cfg_files := Some [''k8s/'', ''kubernetes/''],
       cfg_patterns := Some [''kind: Deployment'', ''kind: Service'', ''kind: Pod''],
       cfg_configs := Some [''skaffold.yaml'', ''helm/Chart.yaml''],
       confidence := kubernetes_confidence \<rparr>),
    (''githubActions'', no_cfg\<lparr> cfg_files := Some [''.github/workflows/*.yml'',
                                                    ''.github/workflows/*.yaml''],
       confidence := githubActions_confidence \<rparr>)]"

text \<open>The table \<^verbatim>\<open>mutualExclusions\<close> read by \<^verbatim>\<open>resolveConflicts\<close>.\<close>

definition mutualExclusions :: "(string \<times> string list) list" where
  "mutualExclusions =
   [(''react'', [''vue'', ''angular'', ''svelte'']),
    (''vue'', [''react'', ''angular'', ''svelte'']),
    (''angular'', [''react'', ''vue'', ''svelte'']),
    (''express'', [''fastify'', ''koa'', ''hapi'']),
    (''jest'', [''mocha'', ''jasmine'', ''ava'']),
    (''webpack'', [''parcel''])]"

subsection \<open>Detection loops\<close>

text \<open>\<^verbatim>\<open>xs || []\<close> for an optional member of a detector.\<close>

definition opt_list :: "string list option \<Rightarrow> string list" where
  "opt_list xs = (case xs of None \<Rightarrow> [] | Some ys \<Rightarrow> ys)"

text \<open>
  \<^verbatim>\<open>detected.sort((a, b) => b.confidence - a.confidence)\<close>: a stable sort, highest
  confidence first.
\<close>

definition sort_by_confidence :: "(string \<times> rat) list \<Rightarrow> (string \<times> rat) list" where
  "sort_by_confidence detected = sort_key (\<lambda>d. - snd d) detected"

text \<open>
  The body of a detection loop that can throw: the evidence of each detector in registry
  order, the first exception ending the loop, and a detection pushed when
  \<^verbatim>\<open>confidence >= 0.7\<close>.
\<close>

fun detect_loop :: "(detector \<Rightarrow> js_error + evidence) \<Rightarrow> (string \<times> detector) list
    \<Rightarrow> js_error + (string \<times> rat) list" where
  "detect_loop gather [] = Inr []"
| "detect_loop gather ((name, cfg) # rest) =
     (case gather cfg of
        Inl err \<Rightarrow> Inl err
      | Inr ev \<Rightarrow>
         (case detect_loop gather rest of
            Inl err \<Rightarrow> Inl err
          | Inr detected \<Rightarrow>
              Inr (if confidence cfg ev \<ge> 0.7 then (name, confidence cfg ev) # detected
                   else detected)))"

text \<open>The same loop for the categories whose evidence gathering cannot throw.\<close>

definition detect_all :: "(detector \<Rightarrow> evidence) \<Rightarrow> (string \<times> detector) list \<Rightarrow> string list" where
  "detect_all gather detectors =
     map fst (filter (\<lambda>(name, c). c \<ge> 0.7)
       (map (\<lambda>(name, cfg). (name, confidence cfg (gather cfg))) detectors))"

text \<open>\<^verbatim>\<open>detectLanguages\<close>. Reading a member of the \<^verbatim>\<open>null\<close> package data throws.\<close>

definition language_evidence :: "project \<Rightarrow> detector \<Rightarrow> js_error + evidence" where
  "language_evidence p cfg =
     (case cfg_patterns cfg of
        None \<Rightarrow> Inl TypeError
      | Some pats \<Rightarrow>
         (let ev = empty_evidence\<lparr>
                files := concat (map (\<lambda>pat. findFiles p pat 100) pats),
                configs := filter (fileExists p) (opt_list (cfg_configs cfg)) \<rparr>
          in case cfg_packageIndicators cfg of
               None \<Rightarrow> Inr ev
             | Some inds \<Rightarrow>
                if ''package.json'' \<in> set (configs ev) then
                  (case readPackageJson p of
                     None \<Rightarrow> Inl TypeError
                   | Some pkg \<Rightarrow>
                      (let allDeps = obj_keys (obj_spread (pkg_dependencies pkg)
                                                         (pkg_devDependencies pkg))
                       in Inr (ev\<lparr> packageIndicators :=
                            filter (\<lambda>ind. list_ex (\<lambda>dep. str_includes dep ind) allDeps) inds \<rparr>)))
                else Inr ev))"

definition detectLanguages :: "project \<Rightarrow> js_error + string list" where
  "detectLanguages p =
     (case detect_loop (language_evidence p) languageDetectors of
        Inl err \<Rightarrow> Inl err
      | Inr detected \<Rightarrow> Inr (map fst (sort_by_confidence detected)))"

text \<open>\<^verbatim>\<open>analyzeProjectStructure\<close>.\<close>

record architecture =
  arch_type :: string
  arch_patterns :: "string list"

record project_structure =
  hasApi :: bool
  hasControllers :: bool
  hasRoutes :: bool
  hasModels :: bool
  hasServices :: bool
  hasComponents :: bool
  hasPages :: bool
  hasViews :: bool
  hasPublic :: bool
  hasSrc :: bool
  hasTests :: bool
  hasDocker :: bool
  hasKubernetes :: bool
  st_architecture :: architecture

definition detect_architecture :: "project \<Rightarrow> architecture" where
  "detect_architecture p =
     (let a0 = \<lparr> arch_type = ''standard'', arch_patterns = [] \<rparr>;
          a1 = (if fileExists p ''lerna.json'' \<or> fileExists p ''turbo.json''
                   \<or> fileExists p ''rush.json''
                then a0\<lparr> arch_type := ''monorepo'',
                         arch_patterns := arch_patterns a0 @ [''monorepo''] \<rparr>
                else a0)
      in if fileExists p ''docker-compose.yml'' then
           (case read_file p ''docker-compose.yml'' of
              None \<Rightarrow> a1
            | Some content \<Rightarrow>
                if service_lines p content > 3
                then a1\<lparr> arch_patterns := arch_patterns a1 @ [''microservices''] \<rparr>
                else a1)
         else a1)"

definition analyzeProjectStructure :: "project \<Rightarrow> project_structure" where
  "analyzeProjectStructure p =
     \<lparr> hasApi = dirExists p ''api'',
       hasControllers = dirExists p ''controllers'',
       hasRoutes = dirExists p ''routes'',
       hasModels = dirExists p ''models'',
       hasServices = dirExists p ''services'',
       hasComponents = (dirExists p ''components'' \<or> dirExists p ''src/components''),
       hasPages = (dirExists p ''pages'' \<or> dirExists p ''src/pages''),
       hasViews = (dirExists p ''views'' \<or> dirExists p ''src/views''),
       hasPublic = dirExists p ''public'',
       hasSrc = dirExists p ''src'',
       hasTests = (dirExists p ''tests'' \<or> dirExists p ''test'' \<or> dirExists p ''__tests__''),
       hasDocker = fileExists p ''Dockerfile'',
       hasKubernetes = (dirExists p ''k8s'' \<or> dirExists p ''kubernetes''),
       st_architecture = detect_architecture p \<rparr>"

text \<open>\<^verbatim>\<open>determineProjectType\<close>.\<close>

record indicators_rec =
  backendOnly :: nat
  frontendOnly :: nat
  fullstack :: nat
  library :: nat
  cli :: nat

record projectType =
  pt_type :: string
  pt_primary :: string
  pt_isBackendOnly :: bool
  pt_isFrontendOnly :: bool
  pt_scores :: indicators_rec

definition backendPackages :: "string list" where
  "backendPackages = [''express'', ''fastify'', ''koa'', ''nestjs'', ''hapi'', ''mongoose'',
                      ''typeorm'', ''sequelize'']"

definition frontendPackages :: "string list" where
  "frontendPackages = [''react'', ''vue'', ''angular'', ''svelte'', ''next'', ''gatsby'', ''nuxt'']"

definition pythonBackendPackages :: "string list" where
  "pythonBackendPackages = [''fastapi'', ''django'', ''flask'', ''tornado'', ''aiohttp'', ''sanic'']"

definition package_indicators :: "project_structure \<Rightarrow> package \<Rightarrow> indicators_rec \<Rightarrow> indicators_rec" where
  "package_indicators st pkg ind =
     (let allDeps = obj_keys (pkg_dependencies pkg) @ obj_keys (pkg_devDependencies pkg);
          backendCount = length (filter (\<lambda>pk. pk \<in> set allDeps) backendPackages);
          frontendCount = length (filter (\<lambda>pk. list_ex (\<lambda>dep. str_includes dep pk) allDeps)
                                    frontendPackages);
          i1 = ind\<lparr> backendOnly := backendOnly ind + backendCount * 2 \<rparr>;
          i2 = i1\<lparr> frontendOnly := frontendOnly i1 + frontendCount * 2 \<rparr>;
          i3 = (if opt_truthy (pkg_bin pkg) then i2\<lparr> cli := cli i2 + 5 \<rparr> else i2)
      in if opt_truthy (pkg_main pkg) \<and> \<not> hasApi st \<and> \<not> hasComponents st
         then i3\<lparr> library := library i3 + 3 \<rparr> else i3)"

definition project_indicators :: "project \<Rightarrow> project_structure \<Rightarrow> package option \<Rightarrow> indicators_rec" where
  "project_indicators p st packageData =
     (let i0 = \<lparr> backendOnly = 0, frontendOnly = 0, fullstack = 0, library = 0, cli = 0 \<rparr>;
          i1 = (if hasApi st \<or> hasControllers st \<or> hasRoutes st \<or> hasModels st
                then i0\<lparr> backendOnly := backendOnly i0 + 3 \<rparr> else i0);
          i2 = (if hasComponents st \<or> hasPages st \<or> hasViews st
                then i1\<lparr> frontendOnly := frontendOnly i1 + 3 \<rparr> else i1);
          i3 = (case packageData of None \<Rightarrow> i2 | Some pkg \<Rightarrow> package_indicators st pkg i2);
          pythonDeps = readPythonDependencies p;
          pythonBackendCount = length (filter (\<lambda>pk. pk \<in> set pythonDeps) pythonBackendPackages)
      in if pythonBackendCount > 0
         then i3\<lparr> backendOnly := backendOnly i3 + pythonBackendCount * 3 \<rparr> else i3)"

definition backend_primary :: "project \<Rightarrow> package option \<Rightarrow> string" where
  "backend_primary p packageData =
     (let primary = (case packageData of
                       None \<Rightarrow> []
                     | Some pkg \<Rightarrow>
                        (let deps = pkg_dependencies pkg
                         in if obj_truthy deps ''express'' then ''express''
                            else if obj_truthy deps ''fastify'' then ''fastify''
                            else if obj_truthy deps ''@nestjs/core'' then ''nestjs''
                            else if obj_truthy deps ''koa'' then ''koa''
                            else []));
          pythonDeps = readPythonDependencies p
      in if ''fastapi'' \<in> set pythonDeps then ''fastapi''
         else if ''django'' \<in> set pythonDeps then ''django''
         else if ''flask'' \<in> set pythonDeps then ''flask''
         else primary)"

definition frontend_primary :: "package option \<Rightarrow> string" where
  "frontend_primary packageData =
     (case packageData of
        None \<Rightarrow> []
      | Some pkg \<Rightarrow>
         (let deps = obj_spread (pkg_dependencies pkg) (pkg_devDependencies pkg)
          in if obj_truthy deps ''react'' then ''react''
             else if obj_truthy deps ''vue'' then ''vue''
             else if obj_truthy deps ''@angular/core'' then ''angular''
             else if obj_truthy deps ''svelte'' then ''svelte''
             else []))"

text \<open>The empty string \<^verbatim>\<open>''\<close> is the empty list \<open>[]\<close>.\<close>

definition determineProjectType :: "project \<Rightarrow> project_structure \<Rightarrow> package option \<Rightarrow> projectType" where
  "determineProjectType p st packageData =
     (let ind = project_indicators p st packageData;
          (type, primary) =
            (if cli ind > 3 then (''cli-tool'', [])
             else if backendOnly ind > 0 \<and> frontendOnly ind > 0
               then (''full-stack-application'', [])
             else if backendOnly ind > frontendOnly ind
               then (''backend-api'', backend_primary p packageData)
             else if frontendOnly ind > backendOnly ind
               then (''frontend-application'', frontend_primary packageData)
             else if library ind > 0 then (''library'', [])
             else (''unknown'', []))
      in \<lparr> pt_type = type, pt_primary = primary,
           pt_isBackendOnly = (backendOnly ind > 0 \<and> frontendOnly ind = 0),
           pt_isFrontendOnly = (frontendOnly ind > 0 \<and> backendOnly ind = 0),
           pt_scores = ind \<rparr>)"

text \<open>
  \<^verbatim>\<open>detectFrameworks\<close>. \<^verbatim>\<open>scripts.some(s => s.includes(w))\<close> visits the values of
  the \<^verbatim>\<open>scripts\<close> object in order and stops at the first hit; a string is searched for
  the text, an array for the element, and any other value has no \<^verbatim>\<open>includes\<close>
  method, so the call throws.
\<close>

fun some_includes :: "jsval list \<Rightarrow> string \<Rightarrow> js_error + bool" where
  "some_includes [] w = Inr False"
| "some_includes (JStr t # ss) w = (if str_includes t w then Inr True else some_includes ss w)"
| "some_includes (JArr xs # ss) w = (if JStr w \<in> set xs then Inr True else some_includes ss w)"
| "some_includes (v # ss) w = Inl TypeError"

fun filter_scripts :: "jsval list \<Rightarrow> string list \<Rightarrow> js_error + string list" where
  "filter_scripts vals [] = Inr []"
| "filter_scripts vals (script # rest) =
     (case some_includes vals (first_word script) of
        Inl err \<Rightarrow> Inl err
      | Inr hit \<Rightarrow>
         (case filter_scripts vals rest of
            Inl err \<Rightarrow> Inl err
          | Inr found \<Rightarrow> Inr (if hit then script # found else found)))"

definition framework_package_evidence :: "package option \<Rightarrow> detector \<Rightarrow> evidence
    \<Rightarrow> js_error + evidence" where
  "framework_package_evidence packageData cfg ev =
     (case (packageData, cfg_dependencies cfg) of
        (Some pkg, Some cdeps) \<Rightarrow>
          (let deps = pkg_dependencies pkg;
               devDeps = pkg_devDependencies pkg;
               ev1 = ev\<lparr> dependencies := filter (obj_truthy deps) cdeps,
                         devDependencies := filter (obj_truthy devDeps)
                                              (opt_list (cfg_devDependencies cfg)) \<rparr>;
               ev2 = (case cfg_relatedPackages cfg of
                        None \<Rightarrow> ev1
                      | Some rel \<Rightarrow> ev1\<lparr> relatedPackages :=
                          filter (\<lambda>pk. obj_truthy deps pk \<or> obj_truthy devDeps pk) rel \<rparr>)
           in case cfg_scripts cfg of
                None \<Rightarrow> Inr ev2
              | Some scs \<Rightarrow>
                 (case filter_scripts (obj_values (pkg_scripts pkg)) scs of
                    Inl err \<Rightarrow> Inl err
                  | Inr found \<Rightarrow> Inr (ev2\<lparr> scripts := found \<rparr>)))
      | _ \<Rightarrow> Inr ev)"

definition framework_python_evidence :: "string list \<Rightarrow> detector \<Rightarrow> evidence \<Rightarrow> evidence" where
  "framework_python_evidence pythonDependencies cfg ev =
     (case cfg_dependencies cfg of
        None \<Rightarrow> ev
      | Some cdeps \<Rightarrow>
         if length pythonDependencies > 0 then
           (let ev1 = ev\<lparr> dependencies := dependencies ev @
                               filter (\<lambda>dep. dep \<in> set pythonDependencies) cdeps \<rparr>
            in case cfg_relatedPackages cfg of
                 None \<Rightarrow> ev1
               | Some rel \<Rightarrow> ev1\<lparr> relatedPackages := relatedPackages ev1 @
                                   filter (\<lambda>pk. pk \<in> set pythonDependencies) rel \<rparr>)
         else ev)"

definition framework_file_evidence :: "project \<Rightarrow> detector \<Rightarrow> evidence \<Rightarrow> evidence" where
  "framework_file_evidence p cfg ev =
     ev\<lparr> files := files ev @ concat (map (\<lambda>pat. findFiles p pat 100) (opt_list (cfg_files cfg))),
         configs := configs ev @ filter (fileExists p) (opt_list (cfg_configs cfg)),
         indicators := indicators ev @ filter (dirExists p) (opt_list (cfg_indicators cfg)) \<rparr>"

text \<open>The contents of the sampled files; a file that cannot be read is skipped.\<close>

definition sample_contents :: "project \<Rightarrow> nat \<Rightarrow> string list \<Rightarrow> string list" where
  "sample_contents p n fs = List.map_filter (read_file p) (take n fs)"

definition framework_scan_evidence :: "project \<Rightarrow> detector \<Rightarrow> evidence \<Rightarrow> evidence" where
  "framework_scan_evidence p cfg ev =
     (if (cfg_codePatterns cfg \<noteq> None \<or> cfg_imports cfg \<noteq> None) \<and> length (files ev) > 0 then
        (let contents = sample_contents p 3 (files ev)
         in ev\<lparr> codePatterns := uniq (codePatterns ev @ concat (map (\<lambda>content.
                    filter (str_includes content) (opt_list (cfg_codePatterns cfg))) contents)),
                importStmts := uniq (importStmts ev @ concat (map (\<lambda>content.
                    filter (str_includes content) (opt_list (cfg_imports cfg))) contents)) \<rparr>)
      else ev)"

definition framework_evidence :: "project \<Rightarrow> package option \<Rightarrow> projectType \<Rightarrow> detector
    \<Rightarrow> js_error + evidence" where
  "framework_evidence p packageData projectType cfg =
     (case framework_package_evidence packageData cfg
             (empty_evidence\<lparr> isBackendOnly := pt_isBackendOnly projectType,
                               isFrontendOnly := pt_isFrontendOnly projectType \<rparr>) of
        Inl err \<Rightarrow> Inl err
      | Inr ev \<Rightarrow>
          Inr (framework_scan_evidence p cfg
                (framework_file_evidence p cfg
                  (framework_python_evidence (readPythonDependencies p) cfg ev))))"

definition detectFrameworks :: "project \<Rightarrow> (string \<times> detector) list \<Rightarrow> package option
    \<Rightarrow> projectType \<Rightarrow> js_error + string list" where
  "detectFrameworks p detectors packageData projectType =
     (case detect_loop (framework_evidence p packageData projectType) detectors of
        Inl err \<Rightarrow> Inl err
      | Inr detected \<Rightarrow> Inr (map fst (sort_by_confidence detected)))"

text \<open>\<^verbatim>\<open>detectDatabases\<close>.\<close>

definition dockerComposeFiles :: "string list" where
  "dockerComposeFiles = [''docker-compose.yml'', ''docker-compose.yaml'',
                         ''docker/docker-compose.yml'', ''docker/docker-compose.yaml'']"

definition compose_services :: "project \<Rightarrow> string list \<Rightarrow> string \<Rightarrow> string list" where
  "compose_services p services f =
     (if fileExists p f then
        (case read_file p f of
           None \<Rightarrow> []
         | Some content \<Rightarrow>
            filter (\<lambda>service. str_includes content (service @ '':'')
                             \<or> str_includes content (''image: '' @ service)) services)
      else [])"

definition env_evidence :: "project \<Rightarrow> detector \<Rightarrow> evidence \<Rightarrow> string \<Rightarrow> evidence" where
  "env_evidence p cfg ev envFile =
     (if fileExists p envFile then
        (case read_file p envFile of
           None \<Rightarrow> ev
         | Some content \<Rightarrow>
            (let ev1 = (case cfg_connectionStrings cfg of
                          None \<Rightarrow> ev
                        | Some conns \<Rightarrow>
                            ev\<lparr> connectionStrings := filter (str_includes content) conns \<rparr>)
             in case cfg_envVars cfg of
                  None \<Rightarrow> ev1
                | Some vars \<Rightarrow> ev1\<lparr> envVars := filter (str_includes content) vars \<rparr>))
      else ev)"

definition database_evidence :: "project \<Rightarrow> package option \<Rightarrow> detector \<Rightarrow> evidence" where
  "database_evidence p packageData cfg =
     (let pythonDependencies = readPythonDependencies p;
          ev1 = (case (packageData, cfg_dependencies cfg) of
                   (Some pkg, Some cdeps) \<Rightarrow>
                     (let allDeps = obj_keys (obj_spread (pkg_dependencies pkg)
                                                        (pkg_devDependencies pkg))
                      in empty_evidence\<lparr> dependencies := filter (\<lambda>dep. dep \<in> set allDeps) cdeps \<rparr>)
                 | _ \<Rightarrow> empty_evidence);
          ev2 = (case cfg_dependencies cfg of
                   None \<Rightarrow> ev1
                 | Some cdeps \<Rightarrow>
                     if length pythonDependencies > 0
                     then ev1\<lparr> dependencies := dependencies ev1 @
                                  filter (\<lambda>dep. dep \<in> set pythonDependencies) cdeps \<rparr>
                     else ev1);
          ev3 = (case cfg_dockerServices cfg of
                   None \<Rightarrow> ev2
                 | Some services \<Rightarrow>
                     ev2\<lparr> dockerServices := uniq (dockerServices ev2 @
                            concat (map (compose_services p services) dockerComposeFiles)) \<rparr>)
      in foldl (env_evidence p cfg) ev3 [''.env'', ''.env.example''])"

definition detectDatabases :: "project \<Rightarrow> package option \<Rightarrow> string list" where
  "detectDatabases p packageData = detect_all (database_evidence p packageData) databaseDetectors"

text \<open>
  \<^verbatim>\<open>detectTesting\<close>. \<open>package_member\<close> is \<^verbatim>\<open>packageData[key]\<close> for the members of
  the package data that are modelled; the only key the registry asks for is \<^verbatim>\<open>jest\<close>.
\<close>

definition package_member :: "package \<Rightarrow> string \<Rightarrow> jsval option" where
  "package_member pkg key =
     (if key = ''jest'' then pkg_jest pkg
      else if key = ''bin'' then pkg_bin pkg
      else if key = ''main'' then pkg_main pkg
      else None)"

definition testing_evidence :: "project \<Rightarrow> package option \<Rightarrow> detector \<Rightarrow> evidence" where
  "testing_evidence p packageData cfg =
     (let pythonDependencies = readPythonDependencies p;
          ev1 = (case packageData of
                   None \<Rightarrow> empty_evidence
                 | Some pkg \<Rightarrow>
                     (let deps = pkg_dependencies pkg; devDeps = pkg_devDependencies pkg
                      in empty_evidence\<lparr>
                           dependencies := filter (\<lambda>dep. obj_truthy deps dep \<or> obj_truthy devDeps dep)
                                             (opt_list (cfg_dependencies cfg)),
                           devDependencies := filter (obj_truthy devDeps)
                                                (opt_list (cfg_devDependencies cfg)),
                           packageJsonConfig :=
                             (case cfg_packageJsonConfig cfg of
                                None \<Rightarrow> False
                              | Some key \<Rightarrow> key \<noteq> [] \<and> opt_truthy (package_member pkg key)) \<rparr>));
          ev2 = (case cfg_dependencies cfg of
                   None \<Rightarrow> ev1
                 | Some cdeps \<Rightarrow>
                     if length pythonDependencies > 0 then
                       (let e = ev1\<lparr> dependencies := dependencies ev1 @
                                       filter (\<lambda>dep. dep \<in> set pythonDependencies) cdeps \<rparr>
                        in case cfg_relatedPackages cfg of
                             None \<Rightarrow> e
                           | Some rel \<Rightarrow> e\<lparr> relatedPackages :=
                                 filter (\<lambda>pk. pk \<in> set pythonDependencies) rel \<rparr>)
                     else ev1);
          ev3 = ev2\<lparr> configs := configs ev2 @ filter (fileExists p) (opt_list (cfg_configs cfg)),
                     directories := directories ev2 @
                                      filter (dirExists p) (opt_list (cfg_directories cfg)),
                     files := files ev2 @
                                concat (map (\<lambda>pat. findFiles p pat 5) (opt_list (cfg_files cfg))) \<rparr>
      in case cfg_codePatterns cfg of
           None \<Rightarrow> ev3
         | Some pats \<Rightarrow>
             if length (files ev3) > 0 then
               ev3\<lparr> codePatterns := uniq (codePatterns ev3 @ concat (map (\<lambda>content.
                      filter (str_includes content) pats) (sample_contents p 2 (files ev3)))) \<rparr>
             else ev3)"

definition detectTesting :: "project \<Rightarrow> package option \<Rightarrow> string list" where
  "detectTesting p packageData = detect_all (testing_evidence p packageData) testingDetectors"

text \<open>\<^verbatim>\<open>detectBuildTools\<close>.\<close>

definition buildTool_evidence :: "project \<Rightarrow> package option \<Rightarrow> detector \<Rightarrow> evidence" where
  "buildTool_evidence p packageData cfg =
     (let ev1 = (case (packageData, cfg_dependencies cfg) of
                   (Some pkg, Some cdeps) \<Rightarrow>
                     (let allDeps = obj_keys (obj_spread (pkg_dependencies pkg)
                                                        (pkg_devDependencies pkg))
                      in empty_evidence\<lparr> dependencies := filter (\<lambda>dep. dep \<in> set allDeps) cdeps \<rparr>)
                 | _ \<Rightarrow> empty_evidence)
      in ev1\<lparr> configs := configs ev1 @ filter (fileExists p) (opt_list (cfg_configs cfg)),
              files := files ev1 @ filter (fileExists p) (opt_list (cfg_files cfg)),
              indicators := indicators ev1 @ filter (fileExists p) (opt_list (cfg_indicators cfg)) \<rparr>)"

definition detectBuildTools :: "project \<Rightarrow> package option \<Rightarrow> string list" where
  "detectBuildTools p packageData = detect_all (buildTool_evidence p packageData) buildToolDetectors"

text \<open>\<^verbatim>\<open>detectDeployment\<close>.\<close>

definition deployment_files :: "project \<Rightarrow> string \<Rightarrow> string list" where
  "deployment_files p f =
     (if CHR ''*'' \<in> set f then findFiles p f 100
      else if fileExists p f then [f] else [])"

definition deployment_evidence :: "project \<Rightarrow> detector \<Rightarrow> evidence" where
  "deployment_evidence p cfg =
     empty_evidence\<lparr> files := concat (map (deployment_files p) (opt_list (cfg_files cfg))),
                     configs := filter (fileExists p) (opt_list (cfg_configs cfg)) \<rparr>"

definition detectDeployment :: "project \<Rightarrow> string list" where
  "detectDeployment p = detect_all (deployment_evidence p) deploymentDetectors"

subsection \<open>Targeted detection, conflict resolution and the final result\<close>

record detection_results =
  d_frontend :: "string list"
  d_backend :: "string list"
  d_databases :: "string list"
  d_testing :: "string list"
  d_buildTools :: "string list"
  d_deployment :: "string list"
  d_patterns :: "string list"
  d_confidence :: "(string \<times> rat) list"

text \<open>\<^verbatim>\<open>performTargetedDetection\<close>; the argument \<^verbatim>\<open>structure\<close> is not used.\<close>

definition performTargetedDetection :: "project \<Rightarrow> projectType \<Rightarrow> package option
    \<Rightarrow> project_structure \<Rightarrow> js_error + detection_results" where
  "performTargetedDetection p projectType packageData st =
     (case (if \<not> pt_isBackendOnly projectType
            then detectFrameworks p frontendDetectors packageData projectType
            else Inr []) of
        Inl err \<Rightarrow> Inl err
      | Inr frontend \<Rightarrow>
         (case (if \<not> pt_isFrontendOnly projectType
                then detectFrameworks p backendDetectors packageData projectType
                else Inr []) of
            Inl err \<Rightarrow> Inl err
          | Inr backend \<Rightarrow>
             (let databases = detectDatabases p packageData;
                  testing = detectTesting p packageData;
                  buildTools = detectBuildTools p packageData;
                  deployment = detectDeployment p
              in Inr \<lparr> d_frontend = frontend, d_backend = backend, d_databases = databases,
                       d_testing = testing, d_buildTools = buildTools,
                       d_deployment = deployment,
                       d_patterns = frontend @ backend @ databases @ testing @ buildTools
                                      @ deployment,
                       d_confidence = [] \<rparr>)))"

text \<open>
  \<^verbatim>\<open>resolveConflicts\<close>: for every entry of the table, in order, and each of the four
  categories, the excluded names are filtered out when the category holds the key.
\<close>

definition resolve_category :: "string \<Rightarrow> string list \<Rightarrow> string list \<Rightarrow> string list" where
  "resolve_category tech exclusions xs =
     (if tech \<in> set xs then filter (\<lambda>t. t \<notin> set exclusions) xs else xs)"

definition resolve_entry :: "detection_results \<Rightarrow> string \<times> string list \<Rightarrow> detection_results" where
  "resolve_entry r entry =
     r\<lparr> d_frontend := resolve_category (fst entry) (snd entry) (d_frontend r),
        d_backend := resolve_category (fst entry) (snd entry) (d_backend r),
        d_testing := resolve_category (fst entry) (snd entry) (d_testing r),
        d_buildTools := resolve_category (fst entry) (snd entry) (d_buildTools r) \<rparr>"

definition resolveConflicts :: "detection_results \<Rightarrow> detection_results" where
  "resolveConflicts detectionResults = foldl resolve_entry detectionResults mutualExclusions"

text \<open>\<^verbatim>\<open>detectPackageManagers\<close>.\<close>

definition detectPackageManagers :: "project \<Rightarrow> string list" where
  "detectPackageManagers p =
     map fst (filter (\<lambda>(manager, lockfile). fileExists p lockfile)
       [(''npm'', ''package-lock.json''), (''yarn'', ''yarn.lock''),
        (''pnpm'', ''pnpm-lock.yaml''), (''bun'', ''bun.lockb'')])"

text \<open>
  The result of \<^verbatim>\<open>detect\<close>. \<open>stack_type\<close> is the member \<^verbatim>\<open>type\<close> and
  \<open>stack_patterns\<close> the member \<^verbatim>\<open>patterns\<close>; \<open>stack_confidence\<close> is \<open>None\<close> when the
  object has no member \<^verbatim>\<open>confidence\<close>.
\<close>

record stack_result =
  languages :: "string list"
  stack_type :: string
  primary :: string
  frameworks :: "string list"
  databases :: "string list"
  testing :: "string list"
  buildTools :: "string list"
  deployment :: "string list"
  stack_patterns :: "string list"
  architecture :: architecture
  packageManagers :: "string list"
  stack_confidence :: "(string \<times> rat) list option"

definition getEmptyResult :: stack_result where
  "getEmptyResult =
     \<lparr> languages = [], stack_type = ''unknown'', primary = [], frameworks = [],
       databases = [], testing = [], buildTools = [], deployment = [], stack_patterns = [],
       architecture = \<lparr> arch_type = ''unknown'', arch_patterns = [] \<rparr>,
       packageManagers = [], stack_confidence = None \<rparr>"

text \<open>The \<^verbatim>\<open>try\<close> block of \<^verbatim>\<open>detect\<close>: \<open>Inl\<close> is an exception thrown inside it.\<close>

definition detect_try :: "project \<Rightarrow> js_error + stack_result" where
  "detect_try p =
     (case detectLanguages p of
        Inl err \<Rightarrow> Inl err
      | Inr langs \<Rightarrow>
         (let projectAnalysis = analyzeProjectStructure p;
              packageData = readPackageJson p;
              projectType = determineProjectType p projectAnalysis packageData
          in case performTargetedDetection p projectType packageData projectAnalysis of
               Inl err \<Rightarrow> Inl err
             | Inr detectionResults \<Rightarrow>
                (let resolved = resolveConflicts detectionResults;
                     finalFrameworks = d_frontend resolved @ d_backend resolved;
                     primaryLanguage = (case langs of [] \<Rightarrow> [] | l # ls \<Rightarrow> l)
                 in Inr \<lparr> languages = langs,
                          stack_type = pt_type projectType,
                          primary = primaryLanguage,
                          frameworks = finalFrameworks,
                          databases = d_databases resolved,
                          testing = d_testing resolved,
                          buildTools = d_buildTools resolved,
                          deployment = d_deployment resolved,
                          stack_patterns = d_patterns resolved,
                          architecture = st_architecture projectAnalysis,
                          packageManagers = detectPackageManagers p,
                          stack_confidence = Some (d_confidence resolved) \<rparr>)))"

text \<open>
  \<^verbatim>\<open>detect\<close>: the \<^verbatim>\<open>catch\<close> block logs the error (\<^verbatim>\<open>logger.error\<close> is
  \<^verbatim>\<open>console.error\<close> or an empty function) and returns the empty result.
\<close>

definition detect :: "project \<Rightarrow> stack_result" where
  "detect p = (case detect_try p of Inl err \<Rightarrow> getEmptyResult | Inr result \<Rightarrow> result)"

subsection \<open>Observations and example projects\<close>

text \<open>
  The confidence every detector of a category computes in the run \<^verbatim>\<open>detect(p)\<close>, in
  registry order (\<open>Inl\<close> where gathering its evidence throws).
\<close>

definition run_projectType :: "project \<Rightarrow> projectType" where
  "run_projectType p = determineProjectType p (analyzeProjectStructure p) (readPackageJson p)"

definition language_scores :: "project \<Rightarrow> (string \<times> (js_error + rat)) list" where
  "language_scores p =
     map (\<lambda>(name, cfg). (name, map_sum id (confidence cfg) (language_evidence p cfg)))
       languageDetectors"

definition framework_scores :: "project \<Rightarrow> (string \<times> detector) list
    \<Rightarrow> (string \<times> (js_error + rat)) list" where
  "framework_scores p detectors =
     map (\<lambda>(name, cfg). (name, map_sum id (confidence cfg)
            (framework_evidence p (readPackageJson p) (run_projectType p) cfg))) detectors"

definition database_scores :: "project \<Rightarrow> (string \<times> rat) list" where
  "database_scores p =
     map (\<lambda>(name, cfg). (name, confidence cfg (database_evidence p (readPackageJson p) cfg)))
       databaseDetectors"

definition testing_scores :: "project \<Rightarrow> (string \<times> rat) list" where
  "testing_scores p =
     map (\<lambda>(name, cfg). (name, confidence cfg (testing_evidence p (readPackageJson p) cfg)))
       testingDetectors"

definition buildTool_scores :: "project \<Rightarrow> (string \<times> rat) list" where
  "buildTool_scores p =
     map (\<lambda>(name, cfg). (name, confidence cfg (buildTool_evidence p (readPackageJson p) cfg)))
       buildToolDetectors"

definition deployment_scores :: "project \<Rightarrow> (string \<times> rat) list" where
  "deployment_scores p =
     map (\<lambda>(name, cfg). (name, confidence cfg (deployment_evidence p cfg))) deploymentDetectors"

text \<open>
  Every registered detector, and the canonical dependency of a detector as the registry
  declares it: the first name of its \<^verbatim>\<open>dependencies\<close> list (none for a detector that
  declares no dependencies: the languages, unittest, poetry, uv, setuptools and the
  deployment targets).
\<close>

definition all_detectors :: "(string \<times> detector) list" where
  "all_detectors = languageDetectors @ frontendDetectors @ backendDetectors
                     @ databaseDetectors @ testingDetectors @ buildToolDetectors
                     @ deploymentDetectors"

definition canonical_dependency :: "detector \<Rightarrow> string option" where
  "canonical_dependency cfg =
     (case cfg_dependencies cfg of
        Some (dep # others) \<Rightarrow> Some dep
      | _ \<Rightarrow> None)"

text \<open>The canonical dependency of every detector, by name.\<close>

definition canonical_dependencies :: "(string \<times> string option) list" where
  "canonical_dependencies = map (\<lambda>(name, cfg). (name, canonical_dependency cfg)) all_detectors"

text \<open>The names the table \<^verbatim>\<open>mutualExclusions\<close> can remove.\<close>

definition excluded_names :: "string list" where
  "excluded_names = concat (map snd mutualExclusions)"

text \<open>An empty directory, and a package descriptor with no members.\<close>

definition empty_project :: project where
  "empty_project = \<lparr> glob = (\<lambda>pat. []), is_file = (\<lambda>f. False), is_dir = (\<lambda>d. False),
     read_file = (\<lambda>f. None), package_json = None, python_deps = [],
     service_lines = (\<lambda>text. 0) \<rparr>"

definition empty_package :: package where
  "empty_package = \<lparr> pkg_dependencies = [], pkg_devDependencies = [], pkg_scripts = [],
     pkg_bin = None, pkg_main = None, pkg_jest = None \<rparr>"

text \<open>
  A project that holds only \<^verbatim>\<open>docker-compose.yml\<close>, with the three lines
  \<^verbatim>\<open>services:\<close>, \<^verbatim>\<open>  redis:\<close> and \<^verbatim>\<open>    image: redis:7\<close>.
\<close>

definition redis_compose_text :: string where
  "redis_compose_text = ''services:'' @ [CHR 0x0A] @ ''  redis:'' @ [CHR 0x0A]
                          @ ''    image: redis:7'' @ [CHR 0x0A]"

definition redis_compose_project :: project where
  "redis_compose_project = empty_project\<lparr>
     is_file := (\<lambda>f. f = ''docker-compose.yml''),
     read_file := (\<lambda>f. if f = ''docker-compose.yml'' then Some redis_compose_text else None),
     service_lines := (\<lambda>text. if text = redis_compose_text then 2 else 0) \<rparr>"

text \<open>
  \<^verbatim>\<open>package.json\<close> with \<^verbatim>\<open>{"dependencies": {"express": "^4.18.2"}}\<close> beside an
  \<^verbatim>\<open>index.js\<close>.
\<close>

definition express_project :: project where
  "express_project = empty_project\<lparr>
     glob := (\<lambda>pat. if pat = ''*.js'' \<or> pat = ''index.js'' then [''index.js''] else []),
     is_file := (\<lambda>f. f = ''package.json'' \<or> f = ''index.js''),
     read_file := (\<lambda>f. if f = ''index.js'' then Some ''module.exports = {}'' else None),
     package_json := Some (empty_package\<lparr>
        pkg_dependencies := [(''express'', JStr ''^4.18.2'')] \<rparr>) \<rparr>"

text \<open>\<^verbatim>\<open>{"dependencies": {"fastify": "^4.0.0", "koa": "^2.0.0"}}\<close>.\<close>

definition fastify_koa_project :: project where
  "fastify_koa_project = empty_project\<lparr>
     is_file := (\<lambda>f. f = ''package.json''),
     package_json := Some (empty_package\<lparr>
        pkg_dependencies := [(''fastify'', JStr ''^4.0.0''), (''koa'', JStr ''^2.0.0'')] \<rparr>) \<rparr>"

text \<open>\<^verbatim>\<open>{"dependencies": {"react": "^18.0.0", "vue": "^3.0.0"}}\<close>.\<close>

definition react_vue_project :: project where
  "react_vue_project = empty_project\<lparr>
     is_file := (\<lambda>f. f = ''package.json''),
     package_json := Some (empty_package\<lparr>
        pkg_dependencies := [(''react'', JStr ''^18.0.0''), (''vue'', JStr ''^3.0.0'')] \<rparr>) \<rparr>"

text \<open>\<^verbatim>\<open>{"scripts": {"dev": 5}}\<close>: a script that is a number.\<close>

definition numeric_script_project :: project where
  "numeric_script_project = empty_project\<lparr>
     is_file := (\<lambda>f. f = ''package.json''),
     package_json := Some (empty_package\<lparr> pkg_scripts := [(''dev'', JNum 5)] \<rparr>) \<rparr>"

text \<open>A directory with the single file \<^verbatim>\<open>main.ts\<close>.\<close>

definition typescript_file_project :: project where
  "typescript_file_project = empty_project\<lparr>
     glob := (\<lambda>pat. if pat = ''*.ts'' then [''main.ts''] else []),
     is_file := (\<lambda>f. f = ''main.ts'') \<rparr>"



definition react_backend_only_evidence :: evidence where
  "react_backend_only_evidence =
     empty_evidence\<lparr> dependencies := [''react''], isBackendOnly := True \<rparr>"

text \<open>
  \<^verbatim>\<open>package.json\<close> with \<^verbatim>\<open>express\<close> and \<^verbatim>\<open>mongoose\<close> as dependencies and
  \<^verbatim>\<open>jest\<close> and \<^verbatim>\<open>webpack\<close> as development dependencies, beside a \<^verbatim>\<open>Dockerfile\<close>.
\<close>

definition node_service_project :: project where
  "node_service_project = empty_project\<lparr>
     is_file := (\<lambda>f. f = ''package.json'' \<or> f = ''Dockerfile''),
     package_json := Some (empty_package\<lparr>
        pkg_dependencies := [(''express'', JStr ''^4.18.2''), (''mongoose'', JStr ''^8.0.0'')],
        pkg_devDependencies := [(''jest'', JStr ''^29.0.0''), (''webpack'', JStr ''^5.0.0'')] \<rparr>) \<rparr>"

text \<open>Two detectors outside the registry, scoring 0.70 and 0.69 on every evidence.\<close>

definition threshold_detector :: detector where
  "threshold_detector = no_cfg\<lparr> confidence := (\<lambda>e. 0.70) \<rparr>"

definition below_threshold_detector :: detector where
  "below_threshold_detector = no_cfg\<lparr> confidence := (\<lambda>e. 0.69) \<rparr>"

definition react_dependency_evidence :: evidence where
  "react_dependency_evidence = empty_evidence\<lparr> dependencies := [''react''] \<rparr>"


text \<open>The docker services each database detector finds in the run \<^verbatim>\<open>detect(p)\<close>.\<close>

definition database_docker_services :: "project \<Rightarrow> (string \<times> string list) list" where
  "database_docker_services p =
     map (\<lambda>(name, cfg). (name, dockerServices (database_evidence p (readPackageJson p) cfg)))
       databaseDetectors"

text \<open>
  The dependency names of the manifests: the keys of \<^verbatim>\<open>dependencies\<close> and
  \<^verbatim>\<open>devDependencies\<close> of \<^verbatim>\<open>package.json\<close> and the Python dependencies.
\<close>

definition manifest_names :: "project \<Rightarrow> string set" where
  "manifest_names p =
     (case readPackageJson p of
        None \<Rightarrow> {}
      | Some pkg \<Rightarrow> set (obj_keys (pkg_dependencies pkg))
                      \<union> set (obj_keys (pkg_devDependencies pkg)))
     \<union> set (readPythonDependencies p)"

text \<open>A directory with \<^verbatim>\<open>main.ts\<close> and \<^verbatim>\<open>go.mod\<close>.\<close>

definition go_typescript_project :: project where
  "go_typescript_project = empty_project\<lparr>
     glob := (\<lambda>pat. if pat = ''*.ts'' then [''main.ts''] else []),
     is_file := (\<lambda>f. f = ''main.ts'' \<or> f = ''go.mod'') \<rparr>"

text \<open>
  \<^verbatim>\<open>{"dependencies": {"koa": "^2.0.0", "express": "^4.18.2"}}\<close>, and the same with a
  \<^verbatim>\<open>requirements.txt\<close> that lists \<^verbatim>\<open>flask\<close> and \<^verbatim>\<open>django\<close>.
\<close>

definition koa_express_project :: project where
  "koa_express_project = empty_project\<lparr>
     is_file := (\<lambda>f. f = ''package.json''),
     package_json := Some (empty_package\<lparr>
        pkg_dependencies := [(''koa'', JStr ''^2.0.0''), (''express'', JStr ''^4.18.2'')] \<rparr>) \<rparr>"

definition flask_django_project :: project where
  "flask_django_project = koa_express_project\<lparr>
     is_file := (\<lambda>f. f = ''package.json'' \<or> f = ''requirements.txt''),
     python_deps := [''flask'', ''django''] \<rparr>"

text \<open>
  \<^verbatim>\<open>{"dependencies": {"vue": "^3.0.0"}, "devDependencies": {"react": "^18.0.0"}}\<close>.
\<close>

definition vue_dev_react_project :: project where
  "vue_dev_react_project = empty_project\<lparr>
     is_file := (\<lambda>f. f = ''package.json''),
     package_json := Some (empty_package\<lparr>
        pkg_dependencies := [(''vue'', JStr ''^3.0.0'')],
        pkg_devDependencies := [(''react'', JStr ''^18.0.0'')] \<rparr>) \<rparr>"



definition vue_dependency_evidence :: evidence where
  "vue_dependency_evidence = empty_evidence\<lparr> dependencies := [''vue''] \<rparr>"

definition mongodb_package_evidence :: evidence where
  "mongodb_package_evidence = empty_evidence\<lparr> dependencies := [''mongodb''] \<rparr>"

definition redis_package_evidence :: evidence where
  "redis_package_evidence = empty_evidence\<lparr> dependencies := [''redis''] \<rparr>"

text \<open>A registry of the two detectors outside the registry.\<close>

definition threshold_registry :: "(string \<times> detector) list" where
  "threshold_registry = [(''at'', threshold_detector), (''below'', below_threshold_detector)]"

text \<open>
  A directory with \<^verbatim>\<open>main.ts\<close>, \<^verbatim>\<open>.python-version\<close> and an empty directory
  \<^verbatim>\<open>tests\<close>: typescript, pytest and uv each score exactly 0.7.
\<close>

definition threshold_project :: project where
  "threshold_project = empty_project\<lparr>
     glob := (\<lambda>pat. if pat = ''*.ts'' then [''main.ts''] else []),
     is_file := (\<lambda>f. f = ''main.ts'' \<or> f = ''.python-version''),
     is_dir := (\<lambda>d. d = ''tests'' \<or> d = ''tests/'') \<rparr>"

text \<open>\<^verbatim>\<open>{"dependencies": {"next": "^14.0.0"}}\<close>.\<close>

definition next_project :: project where
  "next_project = empty_project\<lparr>
     is_file := (\<lambda>f. f = ''package.json''),
     package_json := Some (empty_package\<lparr>
        pkg_dependencies := [(''next'', JStr ''^14.0.0'')] \<rparr>) \<rparr>"

section \<open>Properties\<close>

subsection \<open>Conflict resolution only removes names\<close>

lemma resolve_category_subset: "set (resolve_category tech ex xs) \<subseteq> set xs"
  by (auto simp: resolve_category_def)

lemma resolve_entry_fields:
  "set (d_frontend (resolve_entry r e)) \<subseteq> set (d_frontend r)"
  "set (d_backend (resolve_entry r e)) \<subseteq> set (d_backend r)"
  "set (d_testing (resolve_entry r e)) \<subseteq> set (d_testing r)"
  "set (d_buildTools (resolve_entry r e)) \<subseteq> set (d_buildTools r)"
  "d_databases (resolve_entry r e) = d_databases r"
  "d_deployment (resolve_entry r e) = d_deployment r"
  "d_patterns (resolve_entry r e) = d_patterns r"
  "d_confidence (resolve_entry r e) = d_confidence r"
  using resolve_category_subset by (simp_all add: resolve_entry_def)

lemma foldl_resolve_entry_fields:
  "set (d_frontend (foldl resolve_entry r tbl)) \<subseteq> set (d_frontend r)
   \<and> set (d_backend (foldl resolve_entry r tbl)) \<subseteq> set (d_backend r)
   \<and> set (d_testing (foldl resolve_entry r tbl)) \<subseteq> set (d_testing r)
   \<and> set (d_buildTools (foldl resolve_entry r tbl)) \<subseteq> set (d_buildTools r)
   \<and> d_databases (foldl resolve_entry r tbl) = d_databases r
   \<and> d_deployment (foldl resolve_entry r tbl) = d_deployment r
   \<and> d_patterns (foldl resolve_entry r tbl) = d_patterns r
   \<and> d_confidence (foldl resolve_entry r tbl) = d_confidence r"
proof (induction tbl arbitrary: r)
  case Nil
  show ?case by simp
next
  case (Cons e tbl)
  from Cons.IH [of "resolve_entry r e"] resolve_entry_fields [of r e]
  show ?case by (simp only: foldl_Cons) blast
qed

lemmas resolveConflicts_fields =
  foldl_resolve_entry_fields [where tbl = mutualExclusions, folded resolveConflicts_def]

subsection \<open>What the detection loops accept\<close>

lemma detect_loop_accepts:
  "detect_loop gather ds = Inr detected \<Longrightarrow>
   ((n, c) \<in> set detected) =
     (\<exists>cfg ev. (n, cfg) \<in> set ds \<and> gather cfg = Inr ev \<and> confidence cfg ev = c \<and> 0.7 \<le> c)"
proof (induction ds arbitrary: detected)
  case Nil
  then show ?case by simp
next
  case (Cons d ds)
  obtain name cfg where d: "d = (name, cfg)" by (cases d)
  from Cons.prems d obtain ev rest where
    ev: "gather cfg = Inr ev" and rest: "detect_loop gather ds = Inr rest"
    and det: "detected = (if confidence cfg ev \<ge> 0.7 then (name, confidence cfg ev) # rest else rest)"
    by (auto split: sum.splits)
  from Cons.IH [OF rest] ev det d show ?case
    by (cases "confidence cfg ev \<ge> 0.7") auto
qed

lemma detect_all_accepts:
  "(n \<in> set (detect_all gather ds)) =
     (\<exists>cfg. (n, cfg) \<in> set ds \<and> 0.7 \<le> confidence cfg (gather cfg))"
  by (force simp: detect_all_def image_iff)

lemma set_sort_by_confidence: "set (sort_by_confidence xs) = set xs"
  by (simp add: sort_by_confidence_def)

lemma detectLanguages_accepts:
  assumes "detectLanguages p = Inr langs"
  shows "(n \<in> set langs) = (\<exists>c. (n, Inr c) \<in> set (language_scores p) \<and> 0.7 \<le> c)"
proof -
  from assms obtain detected where
    loop: "detect_loop (language_evidence p) languageDetectors = Inr detected"
    and langs: "langs = map fst (sort_by_confidence detected)"
    by (auto simp: detectLanguages_def split: sum.splits)
  have "(n \<in> set langs) = (\<exists>c. (n, c) \<in> set detected)"
    by (force simp: langs set_sort_by_confidence image_iff)
  also have "\<dots> = (\<exists>c cfg ev. (n, cfg) \<in> set languageDetectors
      \<and> language_evidence p cfg = Inr ev \<and> confidence cfg ev = c \<and> 0.7 \<le> c)"
    by (simp add: detect_loop_accepts [OF loop])
  also have "\<dots> = (\<exists>c. (n, Inr c) \<in> set (language_scores p) \<and> 0.7 \<le> c)"
    by (force simp: language_scores_def image_iff map_sum_def split: sum.splits)
  finally show ?thesis .
qed

lemma detectFrameworks_accepts:
  assumes "detectFrameworks p ds (readPackageJson p) (run_projectType p) = Inr names"
  shows "(n \<in> set names) = (\<exists>c. (n, Inr c) \<in> set (framework_scores p ds) \<and> 0.7 \<le> c)"
proof -
  let ?g = "framework_evidence p (readPackageJson p) (run_projectType p)"
  from assms obtain detected where
    loop: "detect_loop ?g ds = Inr detected"
    and names: "names = map fst (sort_by_confidence detected)"
    by (auto simp: detectFrameworks_def split: sum.splits)
  have "(n \<in> set names) = (\<exists>c. (n, c) \<in> set detected)"
    by (force simp: names set_sort_by_confidence image_iff)
  also have "\<dots> = (\<exists>c cfg ev. (n, cfg) \<in> set ds
      \<and> ?g cfg = Inr ev \<and> confidence cfg ev = c \<and> 0.7 \<le> c)"
    by (simp add: detect_loop_accepts [OF loop])
  also have "\<dots> = (\<exists>c. (n, Inr c) \<in> set (framework_scores p ds) \<and> 0.7 \<le> c)"
    by (force simp: framework_scores_def image_iff map_sum_def split: sum.splits)
  finally show ?thesis .
qed

lemma detectDatabases_accepts:
  "(n \<in> set (detectDatabases p (readPackageJson p)))
     = (\<exists>c. (n, c) \<in> set (database_scores p) \<and> 0.7 \<le> c)"
  by (force simp: detectDatabases_def detect_all_accepts database_scores_def image_iff)

lemma detectTesting_accepts:
  "(n \<in> set (detectTesting p (readPackageJson p)))
     = (\<exists>c. (n, c) \<in> set (testing_scores p) \<and> 0.7 \<le> c)"
  by (force simp: detectTesting_def detect_all_accepts testing_scores_def image_iff)

lemma detectBuildTools_accepts:
  "(n \<in> set (detectBuildTools p (readPackageJson p)))
     = (\<exists>c. (n, c) \<in> set (buildTool_scores p) \<and> 0.7 \<le> c)"
  by (force simp: detectBuildTools_def detect_all_accepts buildTool_scores_def image_iff)

lemma detectDeployment_accepts:
  "(n \<in> set (detectDeployment p)) = (\<exists>c. (n, c) \<in> set (deployment_scores p) \<and> 0.7 \<le> c)"
  by (force simp: detectDeployment_def detect_all_accepts deployment_scores_def image_iff)

subsection \<open>The parts of a run\<close>

text \<open>What a successful run of the \<^verbatim>\<open>try\<close> block is made of.\<close>

lemma performTargetedDetection_success:
  assumes "performTargetedDetection p pt pkg st = Inr dr"
  shows "\<exists>fe be.
      (if \<not> pt_isBackendOnly pt then detectFrameworks p frontendDetectors pkg pt else Inr []) = Inr fe
    \<and> (if \<not> pt_isFrontendOnly pt then detectFrameworks p backendDetectors pkg pt else Inr []) = Inr be
    \<and> d_frontend dr = fe \<and> d_backend dr = be
    \<and> d_databases dr = detectDatabases p pkg \<and> d_testing dr = detectTesting p pkg
    \<and> d_buildTools dr = detectBuildTools p pkg \<and> d_deployment dr = detectDeployment p
    \<and> d_patterns dr = fe @ be @ detectDatabases p pkg @ detectTesting p pkg
                        @ detectBuildTools p pkg @ detectDeployment p"
  using assms unfolding performTargetedDetection_def Let_def
  by (auto split: sum.splits)

lemma detect_try_success:
  assumes "detect_try p = Inr r"
  shows "\<exists>langs dr.
      detectLanguages p = Inr langs
    \<and> performTargetedDetection p (run_projectType p) (readPackageJson p)
         (analyzeProjectStructure p) = Inr dr
    \<and> languages r = langs
    \<and> stack_type r = pt_type (run_projectType p)
    \<and> primary r = (case langs of [] \<Rightarrow> [] | l # ls \<Rightarrow> l)
    \<and> frameworks r = d_frontend (resolveConflicts dr) @ d_backend (resolveConflicts dr)
    \<and> databases r = d_databases (resolveConflicts dr)
    \<and> testing r = d_testing (resolveConflicts dr)
    \<and> buildTools r = d_buildTools (resolveConflicts dr)
    \<and> deployment r = d_deployment (resolveConflicts dr)
    \<and> stack_patterns r = d_patterns (resolveConflicts dr)
    \<and> architecture r = detect_architecture p"
  using assms unfolding detect_try_def Let_def run_projectType_def
  by (auto split: sum.splits simp: analyzeProjectStructure_def)

lemma detect_try_lists:
  assumes "detect_try p = Inr r"
  shows "\<exists>fe be.
      detectLanguages p = Inr (languages r)
    \<and> (if \<not> pt_isBackendOnly (run_projectType p)
        then detectFrameworks p frontendDetectors (readPackageJson p) (run_projectType p)
        else Inr []) = Inr fe
    \<and> (if \<not> pt_isFrontendOnly (run_projectType p)
        then detectFrameworks p backendDetectors (readPackageJson p) (run_projectType p)
        else Inr []) = Inr be
    \<and> (\<exists>fe' be'. frameworks r = fe' @ be' \<and> set fe' \<subseteq> set fe \<and> set be' \<subseteq> set be)
    \<and> databases r = detectDatabases p (readPackageJson p)
    \<and> set (testing r) \<subseteq> set (detectTesting p (readPackageJson p))
    \<and> set (buildTools r) \<subseteq> set (detectBuildTools p (readPackageJson p))
    \<and> deployment r = detectDeployment p
    \<and> stack_patterns r = fe @ be @ detectDatabases p (readPackageJson p)
         @ detectTesting p (readPackageJson p) @ detectBuildTools p (readPackageJson p)
         @ detectDeployment p"
proof -
  from detect_try_success [OF assms] obtain langs dr where
    s: "detectLanguages p = Inr langs"
       "performTargetedDetection p (run_projectType p) (readPackageJson p)
          (analyzeProjectStructure p) = Inr dr"
       "languages r = langs"
       "frameworks r = d_frontend (resolveConflicts dr) @ d_backend (resolveConflicts dr)"
       "databases r = d_databases (resolveConflicts dr)"
       "testing r = d_testing (resolveConflicts dr)"
       "buildTools r = d_buildTools (resolveConflicts dr)"
       "deployment r = d_deployment (resolveConflicts dr)"
       "stack_patterns r = d_patterns (resolveConflicts dr)"
    by blast
  from performTargetedDetection_success [OF s(2)] obtain fe be where
    t: "(if \<not> pt_isBackendOnly (run_projectType p)
         then detectFrameworks p frontendDetectors (readPackageJson p) (run_projectType p)
         else Inr []) = Inr fe"
       "(if \<not> pt_isFrontendOnly (run_projectType p)
         then detectFrameworks p backendDetectors (readPackageJson p) (run_projectType p)
         else Inr []) = Inr be"
       "d_frontend dr = fe" "d_backend dr = be"
       "d_databases dr = detectDatabases p (readPackageJson p)"
       "d_testing dr = detectTesting p (readPackageJson p)"
       "d_buildTools dr = detectBuildTools p (readPackageJson p)"
       "d_deployment dr = detectDeployment p"
       "d_patterns dr = fe @ be @ detectDatabases p (readPackageJson p)
          @ detectTesting p (readPackageJson p) @ detectBuildTools p (readPackageJson p)
          @ detectDeployment p"
    by blast
  note f = resolveConflicts_fields [of dr]
  have fw: "\<exists>fe' be'. frameworks r = fe' @ be' \<and> set fe' \<subseteq> set fe \<and> set be' \<subseteq> set be"
    using s(4) f t(3,4) by blast
  show ?thesis
    using s(1,3) t(1,2) fw s(5-9) f t(5-9) by (intro exI [of _ fe] exI [of _ be]) simp
qed

lemma gated_frontend_scored:
  assumes "(if \<not> pt_isBackendOnly (run_projectType p)
            then detectFrameworks p frontendDetectors (readPackageJson p) (run_projectType p)
            else Inr []) = Inr fe"
    and "n \<in> set fe"
  shows "\<not> pt_isBackendOnly (run_projectType p)
         \<and> (\<exists>c. (n, Inr c) \<in> set (framework_scores p frontendDetectors) \<and> 0.7 \<le> c)"
proof (cases "pt_isBackendOnly (run_projectType p)")
  case True
  with assms show ?thesis by simp
next
  case False
  with assms(1) have "detectFrameworks p frontendDetectors (readPackageJson p)
      (run_projectType p) = Inr fe" by simp
  from detectFrameworks_accepts [OF this, of n] assms(2) False show ?thesis by simp
qed

lemma gated_backend_scored:
  assumes "(if \<not> pt_isFrontendOnly (run_projectType p)
            then detectFrameworks p backendDetectors (readPackageJson p) (run_projectType p)
            else Inr []) = Inr be"
    and "n \<in> set be"
  shows "\<not> pt_isFrontendOnly (run_projectType p)
         \<and> (\<exists>c. (n, Inr c) \<in> set (framework_scores p backendDetectors) \<and> 0.7 \<le> c)"
proof (cases "pt_isFrontendOnly (run_projectType p)")
  case True
  with assms show ?thesis by simp
next
  case False
  with assms(1) have "detectFrameworks p backendDetectors (readPackageJson p)
      (run_projectType p) = Inr be" by simp
  from detectFrameworks_accepts [OF this, of n] assms(2) False show ?thesis by simp
qed

lemma framework_scores_append:
  "framework_scores p (xs @ ys) = framework_scores p xs @ framework_scores p ys"
  by (simp add: framework_scores_def)

lemma detect_failure: "detect_try p = Inl err \<Longrightarrow> detect p = getEmptyResult"
  by (simp add: detect_def)

lemma detect_success: "detect_try p = Inr r \<Longrightarrow> detect p = r"
  by (simp add: detect_def)

lemma not_thrown: "x \<noteq> Inl TypeError \<Longrightarrow> \<exists>r. x = Inr r"
proof (cases x)
  case (Inl err)
  moreover assume "x \<noteq> Inl TypeError"
  ultimately show ?thesis by (cases err) simp
next
  case (Inr r)
  then show ?thesis by simp
qed

lemma language_names:
  assumes "detectLanguages p = Inr langs" and "n \<in> set langs"
  shows "n \<in> set (map fst languageDetectors)"
proof -
  from detectLanguages_accepts [OF assms(1), of n] assms(2)
  obtain c where "(n, Inr c) \<in> set (language_scores p)" by blast
  then show ?thesis by (force simp: language_scores_def)
qed

lemma framework_score_names:
  "(n, s) \<in> set (framework_scores p ds) \<Longrightarrow> n \<in> set (map fst ds)"
  by (force simp: framework_scores_def)

lemma detect_architecture_type:
  "arch_type (detect_architecture p) = ''standard'' \<or> arch_type (detect_architecture p) = ''monorepo''"
  by (simp add: detect_architecture_def Let_def split: option.splits)

lemma vue_dependency_scores_one: "''vue'' \<in> set (dependencies e) \<Longrightarrow> vue_confidence e = 1"
proof -
  have "''vue'' \<in> set ds \<Longrightarrow> list_ex (\<lambda>d. startsWith d ''vue'') ds" for ds
    by (induction ds) auto
  then show "''vue'' \<in> set (dependencies e) \<Longrightarrow> vue_confidence e = 1"
    by (simp add: vue_confidence_def)
qed

lemma mysql_dependency_scores_one: "''mysql'' \<in> set (dependencies e) \<Longrightarrow> mysql_confidence e = 1"
proof -
  have "''mysql'' \<in> set ds \<Longrightarrow> list_ex (\<lambda>d. startsWith d ''mysql'') ds" for ds
    by (induction ds) auto
  then show "''mysql'' \<in> set (dependencies e) \<Longrightarrow> mysql_confidence e = 1"
    by (simp add: mysql_confidence_def)
qed

subsection \<open>What conflict resolution, the patterns list and the redis detector do\<close>

text \<open>
  For every entry of the table \<^verbatim>\<open>mutualExclusions\<close>, the key and a name it excludes
  are never both in one of the four resolved categories, nor both in the frameworks,
  testing or buildTools list of the result.
\<close>

lemma resolve_entry_excludes:
  assumes "b \<in> set excl"
  shows "\<not> (a \<in> set (d_frontend (resolve_entry s (a, excl)))
            \<and> b \<in> set (d_frontend (resolve_entry s (a, excl))))"
    and "\<not> (a \<in> set (d_backend (resolve_entry s (a, excl)))
            \<and> b \<in> set (d_backend (resolve_entry s (a, excl))))"
    and "\<not> (a \<in> set (d_testing (resolve_entry s (a, excl)))
            \<and> b \<in> set (d_testing (resolve_entry s (a, excl))))"
    and "\<not> (a \<in> set (d_buildTools (resolve_entry s (a, excl)))
            \<and> b \<in> set (d_buildTools (resolve_entry s (a, excl))))"
  using assms by (auto simp: resolve_entry_def resolve_category_def)

lemma resolveConflicts_excludes:
  assumes "(a, excl) \<in> set mutualExclusions" and "b \<in> set excl"
  shows "\<not> (a \<in> set (d_frontend (resolveConflicts r)) \<and> b \<in> set (d_frontend (resolveConflicts r)))
       \<and> \<not> (a \<in> set (d_backend (resolveConflicts r)) \<and> b \<in> set (d_backend (resolveConflicts r)))
       \<and> \<not> (a \<in> set (d_testing (resolveConflicts r)) \<and> b \<in> set (d_testing (resolveConflicts r)))
       \<and> \<not> (a \<in> set (d_buildTools (resolveConflicts r))
              \<and> b \<in> set (d_buildTools (resolveConflicts r)))"
proof -
  from assms(1) obtain pre post where tbl: "mutualExclusions = pre @ (a, excl) # post"
    by (auto dest: split_list)
  define s where "s = resolve_entry (foldl resolve_entry r pre) (a, excl)"
  have final: "resolveConflicts r = foldl resolve_entry s post"
    by (simp add: resolveConflicts_def tbl s_def)
  note sub = foldl_resolve_entry_fields [of s post, folded final]
  note ex = resolve_entry_excludes [OF assms(2), of a "foldl resolve_entry r pre", folded s_def]
  from sub ex show ?thesis by blast
qed

lemma table_pairs_stay_in_one_registry:
  assumes "(a, excl) \<in> set mutualExclusions" and "b \<in> set excl"
  shows "\<not> (a \<in> set (map fst frontendDetectors) \<and> b \<in> set (map fst backendDetectors))"
    and "\<not> (a \<in> set (map fst backendDetectors) \<and> b \<in> set (map fst frontendDetectors))"
  using assms
  by (auto simp: mutualExclusions_def frontendDetectors_def backendDetectors_def)

lemma table_exclusions_respected:
  assumes "(a, excl) \<in> set mutualExclusions" and "b \<in> set excl"
  shows "\<not> (a \<in> set (frameworks (detect p)) \<and> b \<in> set (frameworks (detect p)))
       \<and> \<not> (a \<in> set (testing (detect p)) \<and> b \<in> set (testing (detect p)))
       \<and> \<not> (a \<in> set (buildTools (detect p)) \<and> b \<in> set (buildTools (detect p)))"
proof (cases "detect_try p")
  case (Inl err)
  then show ?thesis by (simp add: detect_failure getEmptyResult_def)
next
  case (Inr r)
  from detect_try_success [OF Inr] obtain dr where
    run: "performTargetedDetection p (run_projectType p) (readPackageJson p)
            (analyzeProjectStructure p) = Inr dr"
    and fw: "frameworks r = d_frontend (resolveConflicts dr) @ d_backend (resolveConflicts dr)"
    and te: "testing r = d_testing (resolveConflicts dr)"
    and bt: "buildTools r = d_buildTools (resolveConflicts dr)"
    by blast
  from performTargetedDetection_success [OF run] obtain fe be where
    f: "(if \<not> pt_isBackendOnly (run_projectType p)
         then detectFrameworks p frontendDetectors (readPackageJson p) (run_projectType p)
         else Inr []) = Inr fe"
    and b: "(if \<not> pt_isFrontendOnly (run_projectType p)
         then detectFrameworks p backendDetectors (readPackageJson p) (run_projectType p)
         else Inr []) = Inr be"
    and lists: "d_frontend dr = fe" "d_backend dr = be"
    by blast
  note sub = resolveConflicts_fields [of dr]
  have fn: "x \<in> set (map fst frontendDetectors)" if "x \<in> set (d_frontend (resolveConflicts dr))" for x
  proof -
    from that sub lists(1) have "x \<in> set fe" by blast
    from gated_frontend_scored [OF f this] framework_score_names show ?thesis by blast
  qed
  have bn: "x \<in> set (map fst backendDetectors)" if "x \<in> set (d_backend (resolveConflicts dr))" for x
  proof -
    from that sub lists(2) have "x \<in> set be" by blast
    from gated_backend_scored [OF b this] framework_score_names show ?thesis by blast
  qed
  note ex = resolveConflicts_excludes [OF assms, of dr]
  note cross = table_pairs_stay_in_one_registry [OF assms]
  have "\<not> (a \<in> set (frameworks r) \<and> b \<in> set (frameworks r))"
    using ex cross fn [of a] fn [of b] bn [of a] bn [of b] unfolding fw set_append by blast
  with ex te bt show ?thesis by (simp add: detect_success [OF Inr])
qed

text \<open>\<^verbatim>\<open>patterns\<close> holds at least every name of the final category lists.\<close>

lemma patterns_cover_final_lists:
  assumes "detect_try p = Inr r"
  shows "set (frameworks r) \<union> set (databases r) \<union> set (testing r) \<union> set (buildTools r)
           \<union> set (deployment r) \<subseteq> set (stack_patterns r)"
proof -
  from detect_try_lists [OF assms] obtain fe be fe' be' where
    "frameworks r = fe' @ be'" "set fe' \<subseteq> set fe" "set be' \<subseteq> set be"
    "databases r = detectDatabases p (readPackageJson p)"
    "set (testing r) \<subseteq> set (detectTesting p (readPackageJson p))"
    "set (buildTools r) \<subseteq> set (detectBuildTools p (readPackageJson p))"
    "deployment r = detectDeployment p"
    "stack_patterns r = fe @ be @ detectDatabases p (readPackageJson p)
         @ detectTesting p (readPackageJson p) @ detectBuildTools p (readPackageJson p)
         @ detectDeployment p"
    by blast
  then show ?thesis by auto
qed

text \<open>
  Without \<^verbatim>\<open>ioredis\<close>, \<^verbatim>\<open>redis\<close> or \<^verbatim>\<open>bull\<close> among the manifest dependencies,
  \<^verbatim>\<open>redis\<close> is not in the databases of the result, whatever the compose files hold.
\<close>

lemma env_evidence_dependencies:
  "dependencies (foldl (env_evidence p cfg) ev fs) = dependencies ev"
proof (induction fs arbitrary: ev)
  case Nil
  show ?case by simp
next
  case (Cons f fs)
  have "dependencies (env_evidence p cfg ev f) = dependencies ev"
    by (simp add: env_evidence_def Let_def split: option.splits)
  with Cons.IH [of "env_evidence p cfg ev f"] show ?case by simp
qed

lemma database_evidence_dependencies:
  "set (dependencies (database_evidence p (readPackageJson p) cfg)) \<subseteq> manifest_names p"
  unfolding database_evidence_def Let_def env_evidence_dependencies
  by (auto simp: manifest_names_def empty_evidence_def obj_spread_def obj_keys_def
        split: option.splits)

lemma redis_needs_client_dependency:
  assumes "''ioredis'' \<notin> manifest_names p" and "''redis'' \<notin> manifest_names p"
    and "''bull'' \<notin> manifest_names p"
  shows "''redis'' \<notin> set (databases (detect p))"
proof (cases "detect_try p")
  case (Inl err)
  then show ?thesis by (simp add: detect_failure getEmptyResult_def)
next
  case (Inr r)
  have zero: "redis_confidence (database_evidence p (readPackageJson p) cfg) = 0" for cfg
    using assms database_evidence_dependencies [of p cfg]
    by (auto simp: redis_confidence_def)
  have "\<not> (\<exists>cfg. (''redis'', cfg) \<in> set databaseDetectors
          \<and> 0.7 \<le> confidence cfg (database_evidence p (readPackageJson p) cfg))"
    by (auto simp: databaseDetectors_def no_cfg_def zero)
  then have "''redis'' \<notin> set (detectDatabases p (readPackageJson p))"
    by (simp add: detectDatabases_def detect_all_accepts)
  moreover from detect_try_lists [OF Inr]
  have "databases r = detectDatabases p (readPackageJson p)" by blast
  ultimately show ?thesis by (simp add: detect_success [OF Inr])
qed

subsection \<open>Detector names are unique, so every detector has one score\<close>

lemma distinct_detector_names:
  "distinct (map fst languageDetectors)"
  "distinct (map fst (frontendDetectors @ backendDetectors))"
  "distinct (map fst databaseDetectors)"
  "distinct (map fst testingDetectors)"
  "distinct (map fst buildToolDetectors)"
  "distinct (map fst deploymentDetectors)"
  by (simp_all add: languageDetectors_def frontendDetectors_def backendDetectors_def
        databaseDetectors_def testingDetectors_def buildToolDetectors_def
        deploymentDetectors_def)

lemma score_unique:
  assumes "distinct (map fst ds)"
    and "(n, a) \<in> set (map (\<lambda>(name, cfg). (name, f cfg)) ds)"
    and "(n, b) \<in> set (map (\<lambda>(name, cfg). (name, f cfg)) ds)"
  shows "a = b"
proof -
  have names: "map fst (map (\<lambda>(name, cfg). (name, f cfg)) ds) = map fst ds"
    by (induction ds) auto
  have "distinct (map fst (map (\<lambda>(name, cfg). (name, f cfg)) ds))"
    unfolding names by (rule assms(1))
  from eq_key_imp_eq_value [OF this assms(2) assms(3)] show ?thesis .
qed

lemma language_score_unique:
  "(n, a) \<in> set (language_scores p) \<Longrightarrow> (n, b) \<in> set (language_scores p) \<Longrightarrow> a = b"
  unfolding language_scores_def by (rule score_unique [OF distinct_detector_names(1)])

lemma framework_score_unique:
  "(n, a) \<in> set (framework_scores p (frontendDetectors @ backendDetectors)) \<Longrightarrow>
   (n, b) \<in> set (framework_scores p (frontendDetectors @ backendDetectors)) \<Longrightarrow> a = b"
  unfolding framework_scores_def by (rule score_unique [OF distinct_detector_names(2)])

lemma database_score_unique:
  "(n, a) \<in> set (database_scores p) \<Longrightarrow> (n, b) \<in> set (database_scores p) \<Longrightarrow> a = b"
  unfolding database_scores_def by (rule score_unique [OF distinct_detector_names(3)])

lemma testing_score_unique:
  "(n, a) \<in> set (testing_scores p) \<Longrightarrow> (n, b) \<in> set (testing_scores p) \<Longrightarrow> a = b"
  unfolding testing_scores_def by (rule score_unique [OF distinct_detector_names(4)])

lemma buildTool_score_unique:
  "(n, a) \<in> set (buildTool_scores p) \<Longrightarrow> (n, b) \<in> set (buildTool_scores p) \<Longrightarrow> a = b"
  unfolding buildTool_scores_def by (rule score_unique [OF distinct_detector_names(5)])

lemma deployment_score_unique:
  "(n, a) \<in> set (deployment_scores p) \<Longrightarrow> (n, b) \<in> set (deployment_scores p) \<Longrightarrow> a = b"
  unfolding deployment_scores_def by (rule score_unique [OF distinct_detector_names(6)])

subsection \<open>Conflict resolution keeps the names no table entry excludes\<close>

lemma foldl_resolve_entry_keeps:
  "n \<notin> set (concat (map snd tbl)) \<Longrightarrow>
     (n \<in> set (d_frontend r) \<longrightarrow> n \<in> set (d_frontend (foldl resolve_entry r tbl)))
   \<and> (n \<in> set (d_backend r) \<longrightarrow> n \<in> set (d_backend (foldl resolve_entry r tbl)))
   \<and> (n \<in> set (d_testing r) \<longrightarrow> n \<in> set (d_testing (foldl resolve_entry r tbl)))
   \<and> (n \<in> set (d_buildTools r) \<longrightarrow> n \<in> set (d_buildTools (foldl resolve_entry r tbl)))"
proof (induction tbl arbitrary: r)
  case Nil
  show ?case by simp
next
  case (Cons e tbl)
  from Cons.prems have e: "n \<notin> set (snd e)" and rest: "n \<notin> set (concat (map snd tbl))"
    by simp_all
  have step:
    "n \<in> set (d_frontend r) \<longrightarrow> n \<in> set (d_frontend (resolve_entry r e))"
    "n \<in> set (d_backend r) \<longrightarrow> n \<in> set (d_backend (resolve_entry r e))"
    "n \<in> set (d_testing r) \<longrightarrow> n \<in> set (d_testing (resolve_entry r e))"
    "n \<in> set (d_buildTools r) \<longrightarrow> n \<in> set (d_buildTools (resolve_entry r e))"
    using e by (simp_all add: resolve_entry_def resolve_category_def)
  from Cons.IH [OF rest, of "resolve_entry r e"] step
  show ?case by (simp only: foldl_Cons) blast
qed

lemmas resolveConflicts_keeps =
  foldl_resolve_entry_keeps [where tbl = mutualExclusions,
    folded resolveConflicts_def excluded_names_def]

subsection \<open>The accepted detections of a run\<close>

lemma gated_frontend_accepts:
  assumes "(if \<not> pt_isBackendOnly (run_projectType p)
            then detectFrameworks p frontendDetectors (readPackageJson p) (run_projectType p)
            else Inr []) = Inr fe"
  shows "(n \<in> set fe) = (\<not> pt_isBackendOnly (run_projectType p)
         \<and> (\<exists>c. (n, Inr c) \<in> set (framework_scores p frontendDetectors) \<and> 0.7 \<le> c))"
proof (cases "pt_isBackendOnly (run_projectType p)")
  case True
  with assms show ?thesis by simp
next
  case False
  with assms have "detectFrameworks p frontendDetectors (readPackageJson p)
      (run_projectType p) = Inr fe" by simp
  from detectFrameworks_accepts [OF this, of n] False show ?thesis by simp
qed

lemma gated_backend_accepts:
  assumes "(if \<not> pt_isFrontendOnly (run_projectType p)
            then detectFrameworks p backendDetectors (readPackageJson p) (run_projectType p)
            else Inr []) = Inr be"
  shows "(n \<in> set be) = (\<not> pt_isFrontendOnly (run_projectType p)
         \<and> (\<exists>c. (n, Inr c) \<in> set (framework_scores p backendDetectors) \<and> 0.7 \<le> c))"
proof (cases "pt_isFrontendOnly (run_projectType p)")
  case True
  with assms show ?thesis by simp
next
  case False
  with assms have "detectFrameworks p backendDetectors (readPackageJson p)
      (run_projectType p) = Inr be" by simp
  from detectFrameworks_accepts [OF this, of n] False show ?thesis by simp
qed

text \<open>
  The lists of accepted detections that \<^verbatim>\<open>performTargetedDetection\<close> returns in the
  run \<^verbatim>\<open>detect(p)\<close>: a name is in one exactly when its detector ran and scored at
  least 0.7.
\<close>

lemma run_accepted_detections:
  assumes "performTargetedDetection p (run_projectType p) (readPackageJson p)
             (analyzeProjectStructure p) = Inr dr"
  shows "(n \<in> set (d_frontend dr)) = (\<not> pt_isBackendOnly (run_projectType p)
           \<and> (\<exists>c. (n, Inr c) \<in> set (framework_scores p frontendDetectors) \<and> 0.7 \<le> c))"
    and "(n \<in> set (d_backend dr)) = (\<not> pt_isFrontendOnly (run_projectType p)
           \<and> (\<exists>c. (n, Inr c) \<in> set (framework_scores p backendDetectors) \<and> 0.7 \<le> c))"
    and "(n \<in> set (d_databases dr)) = (\<exists>c. (n, c) \<in> set (database_scores p) \<and> 0.7 \<le> c)"
    and "(n \<in> set (d_testing dr)) = (\<exists>c. (n, c) \<in> set (testing_scores p) \<and> 0.7 \<le> c)"
    and "(n \<in> set (d_buildTools dr)) = (\<exists>c. (n, c) \<in> set (buildTool_scores p) \<and> 0.7 \<le> c)"
    and "(n \<in> set (d_deployment dr)) = (\<exists>c. (n, c) \<in> set (deployment_scores p) \<and> 0.7 \<le> c)"
    and "d_patterns dr = d_frontend dr @ d_backend dr @ d_databases dr @ d_testing dr
           @ d_buildTools dr @ d_deployment dr"
proof -
  from performTargetedDetection_success [OF assms] obtain fe be where
    f: "(if \<not> pt_isBackendOnly (run_projectType p)
         then detectFrameworks p frontendDetectors (readPackageJson p) (run_projectType p)
         else Inr []) = Inr fe"
    and b: "(if \<not> pt_isFrontendOnly (run_projectType p)
         then detectFrameworks p backendDetectors (readPackageJson p) (run_projectType p)
         else Inr []) = Inr be"
    and l: "d_frontend dr = fe" "d_backend dr = be"
       "d_databases dr = detectDatabases p (readPackageJson p)"
       "d_testing dr = detectTesting p (readPackageJson p)"
       "d_buildTools dr = detectBuildTools p (readPackageJson p)"
       "d_deployment dr = detectDeployment p"
       "d_patterns dr = fe @ be @ detectDatabases p (readPackageJson p)
          @ detectTesting p (readPackageJson p) @ detectBuildTools p (readPackageJson p)
          @ detectDeployment p"
    by blast
  show "(n \<in> set (d_frontend dr)) = (\<not> pt_isBackendOnly (run_projectType p)
           \<and> (\<exists>c. (n, Inr c) \<in> set (framework_scores p frontendDetectors) \<and> 0.7 \<le> c))"
    using gated_frontend_accepts [OF f, of n] l(1) by simp
  show "(n \<in> set (d_backend dr)) = (\<not> pt_isFrontendOnly (run_projectType p)
           \<and> (\<exists>c. (n, Inr c) \<in> set (framework_scores p backendDetectors) \<and> 0.7 \<le> c))"
    using gated_backend_accepts [OF b, of n] l(2) by simp
  show "(n \<in> set (d_databases dr)) = (\<exists>c. (n, c) \<in> set (database_scores p) \<and> 0.7 \<le> c)"
    using detectDatabases_accepts [of n p] l(3) by simp
  show "(n \<in> set (d_testing dr)) = (\<exists>c. (n, c) \<in> set (testing_scores p) \<and> 0.7 \<le> c)"
    using detectTesting_accepts [of n p] l(4) by simp
  show "(n \<in> set (d_buildTools dr)) = (\<exists>c. (n, c) \<in> set (buildTool_scores p) \<and> 0.7 \<le> c)"
    using detectBuildTools_accepts [of n p] l(5) by simp
  show "(n \<in> set (d_deployment dr)) = (\<exists>c. (n, c) \<in> set (deployment_scores p) \<and> 0.7 \<le> c)"
    using detectDeployment_accepts [of n p] l(6) by simp
  show "d_patterns dr = d_frontend dr @ d_backend dr @ d_databases dr @ d_testing dr
           @ d_buildTools dr @ d_deployment dr"
    using l by simp
qed

subsection \<open>The threshold, in both directions\<close>

lemma threshold_only_if:
  "(n \<in> set (languages (detect p)) \<longrightarrow>
      (\<exists>c. (n, Inr c) \<in> set (language_scores p) \<and> 0.7 \<le> c))
   \<and> (n \<in> set (frameworks (detect p)) \<longrightarrow>
      (\<exists>c. (n, Inr c) \<in> set (framework_scores p (frontendDetectors @ backendDetectors))
           \<and> 0.7 \<le> c))
   \<and> (n \<in> set (databases (detect p)) \<longrightarrow> (\<exists>c. (n, c) \<in> set (database_scores p) \<and> 0.7 \<le> c))
   \<and> (n \<in> set (testing (detect p)) \<longrightarrow> (\<exists>c. (n, c) \<in> set (testing_scores p) \<and> 0.7 \<le> c))
   \<and> (n \<in> set (buildTools (detect p)) \<longrightarrow> (\<exists>c. (n, c) \<in> set (buildTool_scores p) \<and> 0.7 \<le> c))
   \<and> (n \<in> set (deployment (detect p)) \<longrightarrow> (\<exists>c. (n, c) \<in> set (deployment_scores p) \<and> 0.7 \<le> c))
   \<and> (n \<in> set (stack_patterns (detect p)) \<longrightarrow>
      (\<exists>c. ((n, Inr c) \<in> set (framework_scores p (frontendDetectors @ backendDetectors))
            \<or> (n, c) \<in> set (database_scores p @ testing_scores p @ buildTool_scores p
                               @ deployment_scores p))
           \<and> 0.7 \<le> c))"
proof (cases "detect_try p")
  case (Inl err)
  then show ?thesis by (simp add: detect_failure getEmptyResult_def)
next
  case (Inr r)
  from detect_try_lists [OF Inr] obtain fe be fe' be' where
    l: "detectLanguages p = Inr (languages r)"
    and f: "(if \<not> pt_isBackendOnly (run_projectType p)
             then detectFrameworks p frontendDetectors (readPackageJson p) (run_projectType p)
             else Inr []) = Inr fe"
    and b: "(if \<not> pt_isFrontendOnly (run_projectType p)
             then detectFrameworks p backendDetectors (readPackageJson p) (run_projectType p)
             else Inr []) = Inr be"
    and fw: "frameworks r = fe' @ be'" "set fe' \<subseteq> set fe" "set be' \<subseteq> set be"
    and d: "databases r = detectDatabases p (readPackageJson p)"
    and t: "set (testing r) \<subseteq> set (detectTesting p (readPackageJson p))"
    and bt: "set (buildTools r) \<subseteq> set (detectBuildTools p (readPackageJson p))"
    and dp: "deployment r = detectDeployment p"
    and pa: "stack_patterns r = fe @ be @ detectDatabases p (readPackageJson p)
       @ detectTesting p (readPackageJson p) @ detectBuildTools p (readPackageJson p)
       @ detectDeployment p"
    by blast
  have fes: "\<exists>c. (n, Inr c) \<in> set (framework_scores p (frontendDetectors @ backendDetectors))
               \<and> 0.7 \<le> c" if "n \<in> set fe \<or> n \<in> set be"
    using that gated_frontend_scored [OF f, of n] gated_backend_scored [OF b, of n]
    by (auto simp: framework_scores_append)
  have c1: "n \<in> set (languages r) \<longrightarrow> (\<exists>c. (n, Inr c) \<in> set (language_scores p) \<and> 0.7 \<le> c)"
    using detectLanguages_accepts [OF l, of n] by simp
  have c2: "n \<in> set (frameworks r) \<longrightarrow>
      (\<exists>c. (n, Inr c) \<in> set (framework_scores p (frontendDetectors @ backendDetectors))
           \<and> 0.7 \<le> c)"
    using fes fw by auto
  have c3: "n \<in> set (databases r) \<longrightarrow> (\<exists>c. (n, c) \<in> set (database_scores p) \<and> 0.7 \<le> c)"
    using detectDatabases_accepts [of n p] d by simp
  have c4: "n \<in> set (testing r) \<longrightarrow> (\<exists>c. (n, c) \<in> set (testing_scores p) \<and> 0.7 \<le> c)"
    using detectTesting_accepts [of n p] t by blast
  have c5: "n \<in> set (buildTools r) \<longrightarrow> (\<exists>c. (n, c) \<in> set (buildTool_scores p) \<and> 0.7 \<le> c)"
    using detectBuildTools_accepts [of n p] bt by blast
  have c6: "n \<in> set (deployment r) \<longrightarrow> (\<exists>c. (n, c) \<in> set (deployment_scores p) \<and> 0.7 \<le> c)"
    using detectDeployment_accepts [of n p] dp by simp
  have c7: "n \<in> set (stack_patterns r) \<longrightarrow>
    (\<exists>c. ((n, Inr c) \<in> set (framework_scores p (frontendDetectors @ backendDetectors))
          \<or> (n, c) \<in> set (database_scores p @ testing_scores p @ buildTool_scores p
                             @ deployment_scores p))
         \<and> 0.7 \<le> c)"
  proof
    assume "n \<in> set (stack_patterns r)"
    then consider "n \<in> set fe \<or> n \<in> set be"
      | "n \<in> set (detectDatabases p (readPackageJson p))"
      | "n \<in> set (detectTesting p (readPackageJson p))"
      | "n \<in> set (detectBuildTools p (readPackageJson p))"
      | "n \<in> set (detectDeployment p)"
      by (auto simp: pa)
    then show "\<exists>c. ((n, Inr c) \<in> set (framework_scores p (frontendDetectors @ backendDetectors))
          \<or> (n, c) \<in> set (database_scores p @ testing_scores p @ buildTool_scores p
                             @ deployment_scores p))
         \<and> 0.7 \<le> c"
    proof cases
      case 1
      with fes show ?thesis by blast
    next
      case 2
      with detectDatabases_accepts [of n p] show ?thesis by auto
    next
      case 3
      with detectTesting_accepts [of n p] show ?thesis by auto
    next
      case 4
      with detectBuildTools_accepts [of n p] show ?thesis by auto
    next
      case 5
      with detectDeployment_accepts [of n p] show ?thesis by auto
    qed
  qed
  from c1 c2 c3 c4 c5 c6 c7 show ?thesis
    unfolding detect_success [OF Inr] by blast
qed

lemma threshold_rejects:
  "((n, Inr c) \<in> set (language_scores p) \<and> c < 0.7 \<longrightarrow> n \<notin> set (languages (detect p)))
   \<and> ((n, Inr c) \<in> set (framework_scores p (frontendDetectors @ backendDetectors)) \<and> c < 0.7
        \<longrightarrow> n \<notin> set (frameworks (detect p)))
   \<and> ((n, c) \<in> set (database_scores p) \<and> c < 0.7 \<longrightarrow> n \<notin> set (databases (detect p)))
   \<and> ((n, c) \<in> set (testing_scores p) \<and> c < 0.7 \<longrightarrow> n \<notin> set (testing (detect p)))
   \<and> ((n, c) \<in> set (buildTool_scores p) \<and> c < 0.7 \<longrightarrow> n \<notin> set (buildTools (detect p)))
   \<and> ((n, c) \<in> set (deployment_scores p) \<and> c < 0.7 \<longrightarrow> n \<notin> set (deployment (detect p)))"
proof -
  note only_if = threshold_only_if [of n p]
  have 1: "(n, Inr c) \<in> set (language_scores p) \<and> c < 0.7 \<longrightarrow> n \<notin> set (languages (detect p))"
    using only_if language_score_unique [of n "Inr c" p] by fastforce
  have 2: "(n, Inr c) \<in> set (framework_scores p (frontendDetectors @ backendDetectors)) \<and> c < 0.7
        \<longrightarrow> n \<notin> set (frameworks (detect p))"
    using only_if framework_score_unique [of n "Inr c" p] by fastforce
  have 3: "(n, c) \<in> set (database_scores p) \<and> c < 0.7 \<longrightarrow> n \<notin> set (databases (detect p))"
    using only_if database_score_unique [of n c p] by fastforce
  have 4: "(n, c) \<in> set (testing_scores p) \<and> c < 0.7 \<longrightarrow> n \<notin> set (testing (detect p))"
    using only_if testing_score_unique [of n c p] by fastforce
  have 5: "(n, c) \<in> set (buildTool_scores p) \<and> c < 0.7 \<longrightarrow> n \<notin> set (buildTools (detect p))"
    using only_if buildTool_score_unique [of n c p] by fastforce
  have 6: "(n, c) \<in> set (deployment_scores p) \<and> c < 0.7 \<longrightarrow> n \<notin> set (deployment (detect p))"
    using only_if deployment_score_unique [of n c p] by fastforce
  from 1 2 3 4 5 6 show ?thesis by blast
qed

lemma threshold_accepts:
  "detect_try p = Inr r \<longrightarrow>
   (((n \<in> set (languages r)) = (\<exists>c. (n, Inr c) \<in> set (language_scores p) \<and> 0.7 \<le> c))
   \<and> ((n \<in> set (databases r)) = (\<exists>c. (n, c) \<in> set (database_scores p) \<and> 0.7 \<le> c))
   \<and> ((n \<in> set (deployment r)) = (\<exists>c. (n, c) \<in> set (deployment_scores p) \<and> 0.7 \<le> c))
   \<and> ((n, Inr c) \<in> set (framework_scores p frontendDetectors) \<and> 0.7 \<le> c
        \<and> \<not> pt_isBackendOnly (run_projectType p) \<and> n \<notin> set excluded_names
        \<longrightarrow> n \<in> set (frameworks r))
   \<and> ((n, Inr c) \<in> set (framework_scores p backendDetectors) \<and> 0.7 \<le> c
        \<and> \<not> pt_isFrontendOnly (run_projectType p) \<and> n \<notin> set excluded_names
        \<longrightarrow> n \<in> set (frameworks r))
   \<and> ((n, c) \<in> set (testing_scores p) \<and> 0.7 \<le> c \<and> n \<notin> set excluded_names
        \<longrightarrow> n \<in> set (testing r))
   \<and> ((n, c) \<in> set (buildTool_scores p) \<and> 0.7 \<le> c \<and> n \<notin> set excluded_names
        \<longrightarrow> n \<in> set (buildTools r))
   \<and> ((n \<in> set (stack_patterns r)) =
        ((\<exists>c. (n, Inr c) \<in> set (framework_scores p frontendDetectors) \<and> 0.7 \<le> c
              \<and> \<not> pt_isBackendOnly (run_projectType p))
         \<or> (\<exists>c. (n, Inr c) \<in> set (framework_scores p backendDetectors) \<and> 0.7 \<le> c
              \<and> \<not> pt_isFrontendOnly (run_projectType p))
         \<or> (\<exists>c. (n, c) \<in> set (database_scores p @ testing_scores p @ buildTool_scores p
                                @ deployment_scores p) \<and> 0.7 \<le> c))))"
proof
  assume assms: "detect_try p = Inr r"
  show "((n \<in> set (languages r)) = (\<exists>c. (n, Inr c) \<in> set (language_scores p) \<and> 0.7 \<le> c))
   \<and> ((n \<in> set (databases r)) = (\<exists>c. (n, c) \<in> set (database_scores p) \<and> 0.7 \<le> c))
   \<and> ((n \<in> set (deployment r)) = (\<exists>c. (n, c) \<in> set (deployment_scores p) \<and> 0.7 \<le> c))
   \<and> ((n, Inr c) \<in> set (framework_scores p frontendDetectors) \<and> 0.7 \<le> c
        \<and> \<not> pt_isBackendOnly (run_projectType p) \<and> n \<notin> set excluded_names
        \<longrightarrow> n \<in> set (frameworks r))
   \<and> ((n, Inr c) \<in> set (framework_scores p backendDetectors) \<and> 0.7 \<le> c
        \<and> \<not> pt_isFrontendOnly (run_projectType p) \<and> n \<notin> set excluded_names
        \<longrightarrow> n \<in> set (frameworks r))
   \<and> ((n, c) \<in> set (testing_scores p) \<and> 0.7 \<le> c \<and> n \<notin> set excluded_names
        \<longrightarrow> n \<in> set (testing r))
   \<and> ((n, c) \<in> set (buildTool_scores p) \<and> 0.7 \<le> c \<and> n \<notin> set excluded_names
        \<longrightarrow> n \<in> set (buildTools r))
   \<and> ((n \<in> set (stack_patterns r)) =
        ((\<exists>c. (n, Inr c) \<in> set (framework_scores p frontendDetectors) \<and> 0.7 \<le> c
              \<and> \<not> pt_isBackendOnly (run_projectType p))
         \<or> (\<exists>c. (n, Inr c) \<in> set (framework_scores p backendDetectors) \<and> 0.7 \<le> c
              \<and> \<not> pt_isFrontendOnly (run_projectType p))
         \<or> (\<exists>c. (n, c) \<in> set (database_scores p @ testing_scores p @ buildTool_scores p
                                @ deployment_scores p) \<and> 0.7 \<le> c)))"
  proof -
    from detect_try_success [OF assms] obtain dr where
      langs: "detectLanguages p = Inr (languages r)"
      and run: "performTargetedDetection p (run_projectType p) (readPackageJson p)
              (analyzeProjectStructure p) = Inr dr"
      and fw: "frameworks r = d_frontend (resolveConflicts dr) @ d_backend (resolveConflicts dr)"
      and fin: "databases r = d_databases (resolveConflicts dr)"
         "testing r = d_testing (resolveConflicts dr)"
         "buildTools r = d_buildTools (resolveConflicts dr)"
         "deployment r = d_deployment (resolveConflicts dr)"
         "stack_patterns r = d_patterns (resolveConflicts dr)"
      by blast
    note acc = run_accepted_detections [OF run]
    note same = resolveConflicts_fields [of dr]
    note keeps = resolveConflicts_keeps [where n = n and r = dr]
    have 1: "(n \<in> set (languages r)) = (\<exists>c. (n, Inr c) \<in> set (language_scores p) \<and> 0.7 \<le> c)"
      by (rule detectLanguages_accepts [OF langs])
    have 2: "(n \<in> set (databases r)) = (\<exists>c. (n, c) \<in> set (database_scores p) \<and> 0.7 \<le> c)"
      using acc(3) fin(1) same by simp
    have 3: "(n \<in> set (deployment r)) = (\<exists>c. (n, c) \<in> set (deployment_scores p) \<and> 0.7 \<le> c)"
      using acc(6) fin(4) same by simp
    have 4: "(n, Inr c) \<in> set (framework_scores p frontendDetectors) \<and> 0.7 \<le> c
          \<and> \<not> pt_isBackendOnly (run_projectType p) \<and> n \<notin> set excluded_names
          \<longrightarrow> n \<in> set (frameworks r)"
      using acc(1) keeps fw by auto
    have 5: "(n, Inr c) \<in> set (framework_scores p backendDetectors) \<and> 0.7 \<le> c
          \<and> \<not> pt_isFrontendOnly (run_projectType p) \<and> n \<notin> set excluded_names
          \<longrightarrow> n \<in> set (frameworks r)"
      using acc(2) keeps fw by auto
    have 6: "(n, c) \<in> set (testing_scores p) \<and> 0.7 \<le> c \<and> n \<notin> set excluded_names
          \<longrightarrow> n \<in> set (testing r)"
      using acc(4) keeps fin(2) by auto
    have 7: "(n, c) \<in> set (buildTool_scores p) \<and> 0.7 \<le> c \<and> n \<notin> set excluded_names
          \<longrightarrow> n \<in> set (buildTools r)"
      using acc(5) keeps fin(3) by auto
    have pat: "set (stack_patterns r) = set (d_frontend dr) \<union> set (d_backend dr)
        \<union> set (d_databases dr) \<union> set (d_testing dr) \<union> set (d_buildTools dr)
        \<union> set (d_deployment dr)"
      using fin(5) same acc(7) by auto
    have 8: "(n \<in> set (stack_patterns r)) =
          ((\<exists>c. (n, Inr c) \<in> set (framework_scores p frontendDetectors) \<and> 0.7 \<le> c
                \<and> \<not> pt_isBackendOnly (run_projectType p))
           \<or> (\<exists>c. (n, Inr c) \<in> set (framework_scores p backendDetectors) \<and> 0.7 \<le> c
                \<and> \<not> pt_isFrontendOnly (run_projectType p))
           \<or> (\<exists>c. (n, c) \<in> set (database_scores p @ testing_scores p @ buildTool_scores p
                                  @ deployment_scores p) \<and> 0.7 \<le> c))"
      unfolding pat Un_iff acc(1-6) by auto
    from 1 2 3 4 5 6 7 8 show ?thesis by blast
  qed
qed

lemma threshold_loops:
  "((m \<in> set (detect_all gather ds)) =
       (\<exists>cfg. (m, cfg) \<in> set ds \<and> 0.7 \<le> confidence cfg (gather cfg)))
   \<and> (detect_loop gather' ds = Inr detected \<longrightarrow>
        ((m, c) \<in> set detected) =
          (\<exists>cfg ev. (m, cfg) \<in> set ds \<and> gather' cfg = Inr ev \<and> confidence cfg ev = c
                    \<and> 0.7 \<le> c))
   \<and> ((m, cfg) \<in> set ds \<and> confidence cfg (gather cfg) = 0.70 \<longrightarrow>
        m \<in> set (detect_all gather ds))
   \<and> (distinct (map fst ds) \<and> (m, cfg) \<in> set ds \<and> confidence cfg (gather cfg) = 0.69 \<longrightarrow>
        m \<notin> set (detect_all gather ds))
   \<and> (detect_loop gather' ds = Inr detected \<and> (m, cfg) \<in> set ds \<and> gather' cfg = Inr ev
        \<and> confidence cfg ev = 0.70 \<longrightarrow> (m, 0.70) \<in> set detected)
   \<and> (detect_loop gather' ds = Inr detected \<and> distinct (map fst ds) \<and> (m, cfg) \<in> set ds
        \<and> gather' cfg = Inr ev \<and> confidence cfg ev = 0.69 \<longrightarrow> m \<notin> fst ` set detected)
   \<and> (confidence cfg (gather cfg) = 0.70 \<longrightarrow> detect_all gather [(m, cfg)] = [m])
   \<and> (confidence cfg (gather cfg) = 0.69 \<longrightarrow> detect_all gather [(m, cfg)] = [])
   \<and> (gather' cfg = Inr ev \<and> confidence cfg ev = 0.70 \<longrightarrow>
        detect_loop gather' [(m, cfg)] = Inr [(m, 0.70)])
   \<and> (gather' cfg = Inr ev \<and> confidence cfg ev = 0.69 \<longrightarrow>
        detect_loop gather' [(m, cfg)] = Inr [])"
proof -
  have 1: "(m \<in> set (detect_all gather ds)) =
       (\<exists>cfg. (m, cfg) \<in> set ds \<and> 0.7 \<le> confidence cfg (gather cfg))"
    by (rule detect_all_accepts)
  have 2: "detect_loop gather' ds = Inr detected \<longrightarrow>
        ((m, c) \<in> set detected) =
          (\<exists>cfg ev. (m, cfg) \<in> set ds \<and> gather' cfg = Inr ev \<and> confidence cfg ev = c
                    \<and> 0.7 \<le> c)"
    using detect_loop_accepts [of gather' ds detected m c] by blast
  have 3: "(m, cfg) \<in> set ds \<and> confidence cfg (gather cfg) = 0.70 \<longrightarrow>
        m \<in> set (detect_all gather ds)"
    unfolding detect_all_accepts by auto
  have 4: "distinct (map fst ds) \<and> (m, cfg) \<in> set ds \<and> confidence cfg (gather cfg) = 0.69 \<longrightarrow>
        m \<notin> set (detect_all gather ds)"
  proof (intro impI notI, elim conjE)
    assume d: "distinct (map fst ds)" and i: "(m, cfg) \<in> set ds"
      and c: "confidence cfg (gather cfg) = 0.69" and "m \<in> set (detect_all gather ds)"
    then obtain cfg' where "(m, cfg') \<in> set ds" "0.7 \<le> confidence cfg' (gather cfg')"
      unfolding detect_all_accepts by blast
    with eq_key_imp_eq_value [OF d i] c show False by auto
  qed
  have 5: "detect_loop gather' ds = Inr detected \<and> (m, cfg) \<in> set ds \<and> gather' cfg = Inr ev
        \<and> confidence cfg ev = 0.70 \<longrightarrow> (m, 0.70) \<in> set detected"
  proof (intro impI, elim conjE)
    assume l: "detect_loop gather' ds = Inr detected" and "(m, cfg) \<in> set ds"
      "gather' cfg = Inr ev" "confidence cfg ev = 0.70"
    then show "(m, 0.70) \<in> set detected"
      unfolding detect_loop_accepts [OF l] by auto
  qed
  have 6: "detect_loop gather' ds = Inr detected \<and> distinct (map fst ds) \<and> (m, cfg) \<in> set ds
        \<and> gather' cfg = Inr ev \<and> confidence cfg ev = 0.69 \<longrightarrow> m \<notin> fst ` set detected"
  proof (intro impI notI, elim conjE)
    assume l: "detect_loop gather' ds = Inr detected" and d: "distinct (map fst ds)"
      and i: "(m, cfg) \<in> set ds" and g: "gather' cfg = Inr ev"
      and c: "confidence cfg ev = 0.69" and "m \<in> fst ` set detected"
    then obtain c' where "(m, c') \<in> set detected" by auto
    then obtain cfg' ev' where "(m, cfg') \<in> set ds" "gather' cfg' = Inr ev'"
      "0.7 \<le> confidence cfg' ev'"
      unfolding detect_loop_accepts [OF l] by blast
    with eq_key_imp_eq_value [OF d i] g c show False by auto
  qed
  have 7: "(confidence cfg (gather cfg) = 0.70 \<longrightarrow> detect_all gather [(m, cfg)] = [m])
   \<and> (confidence cfg (gather cfg) = 0.69 \<longrightarrow> detect_all gather [(m, cfg)] = [])
   \<and> (gather' cfg = Inr ev \<and> confidence cfg ev = 0.70 \<longrightarrow>
        detect_loop gather' [(m, cfg)] = Inr [(m, 0.70)])
   \<and> (gather' cfg = Inr ev \<and> confidence cfg ev = 0.69 \<longrightarrow>
        detect_loop gather' [(m, cfg)] = Inr [])"
    by (simp add: detect_all_def)
  from 1 2 3 4 5 6 7 show ?thesis by blast
qed

subsection \<open>The primary language\<close>

lemma sort_key_head_least:
  assumes "sort_key f xs = y # ys" and "z \<in> set ys"
  shows "f y \<le> f z"
proof -
  have "sorted (map f (sort_key f xs))" by (rule sorted_sort_key)
  with assms show ?thesis by simp
qed

text \<open>The first language detected has the highest confidence of those detected.\<close>

lemma first_language_highest:
  assumes "detectLanguages p = Inr (l # ls)"
  shows "\<exists>c. (l, Inr c) \<in> set (language_scores p) \<and> 0.7 \<le> c
      \<and> (\<forall>n c'. n \<in> set ls \<and> (n, Inr c') \<in> set (language_scores p) \<longrightarrow> c' \<le> c)"
proof -
  from assms obtain detected where
    loop: "detect_loop (language_evidence p) languageDetectors = Inr detected"
    and langs: "l # ls = map fst (sort_by_confidence detected)"
    by (auto simp: detectLanguages_def split: sum.splits)
  from langs obtain c rest where
    sorted: "sort_by_confidence detected = (l, c) # rest" and ls: "ls = map fst rest"
    by (cases "sort_by_confidence detected") auto
  have scored: "(n, Inr k) \<in> set (language_scores p) \<and> 0.7 \<le> k"
    if "(n, k) \<in> set detected" for n k
  proof -
    from that detect_loop_accepts [OF loop, of n k] obtain cfg ev where
      "(n, cfg) \<in> set languageDetectors" "language_evidence p cfg = Inr ev"
      "confidence cfg ev = k" "0.7 \<le> k"
      by blast
    then show ?thesis by (force simp: language_scores_def image_iff)
  qed
  have "(l, c) \<in> set detected"
    using sorted set_sort_by_confidence [of detected] by auto
  from scored [OF this] have first: "(l, Inr c) \<in> set (language_scores p)" "0.7 \<le> c"
    by simp_all
  have "c' \<le> c" if n: "n \<in> set ls" and s: "(n, Inr c') \<in> set (language_scores p)" for n c'
  proof -
    from n ls obtain k where k: "(n, k) \<in> set rest" by auto
    with sorted set_sort_by_confidence [of detected] have "(n, k) \<in> set detected" by auto
    from scored [OF this] language_score_unique [OF s] have "c' = k" by blast
    moreover from sort_key_head_least [OF sorted [unfolded sort_by_confidence_def] k]
    have "k \<le> c" by simp
    ultimately show ?thesis by simp
  qed
  with first show ?thesis by blast
qed

lemma language_names_are_not_framework_names:
  "set ([] # map fst languageDetectors) \<inter> set (map fst (frontendDetectors @ backendDetectors)) = {}"
  by (simp add: languageDetectors_def frontendDetectors_def backendDetectors_def)

subsection \<open>Flags and canonical dependencies\<close>




text \<open>A registered detector, looked up by name.\<close>

lemma registered_detector:
  assumes "map_option f (map_of ds n) = Some v"
  shows "\<exists>cfg. (n, cfg) \<in> set ds \<and> f cfg = v"
  using assms by (cases "map_of ds n") (auto dest: map_of_SomeD)

lemma detector_names_distinct: "distinct (map fst all_detectors)"
  by code_simp

text \<open>The first declared dependency of every registered detector.\<close>

lemma canonical_dependencies_registry:
  "canonical_dependencies =
     [(''javascript'', None), (''typescript'', None), (''python'', None),
      (''java'', None), (''go'', None), (''react'', Some ''react''),
      (''vue'', Some ''vue''), (''angular'', Some ''@angular/core''),
      (''nextjs'', Some ''next''), (''express'', Some ''express''),
      (''fastify'', Some ''fastify''), (''koa'', Some ''koa''),
      (''nestjs'', Some ''@nestjs/core''), (''fastapi'', Some ''fastapi''),
      (''django'', Some ''django''), (''flask'', Some ''flask''),
      (''mongodb'', Some ''mongodb''), (''postgresql'', Some ''pg''),
      (''mysql'', Some ''mysql''), (''redis'', Some ''redis''),
      (''jest'', Some ''jest''), (''mocha'', Some ''mocha''),
      (''cypress'', Some ''cypress''), (''playwright'', Some ''@playwright/test''),
      (''pytest'', Some ''pytest''), (''unittest'', None),
      (''webpack'', Some ''webpack''), (''vite'', Some ''vite''),
      (''poetry'', None), (''uv'', None), (''setuptools'', None),
      (''docker'', None), (''kubernetes'', None), (''githubActions'', None)]"
  by code_simp

text \<open>The canonical dependency, detector by detector.\<close>

lemma canonical_dependency_registry:
  "list_all (\<lambda>(name, cfg). \<forall>dep e.
      canonical_dependency cfg = Some dep \<and> dep \<in> set (dependencies e) \<longrightarrow>
        (name \<noteq> ''react'' \<and> name \<noteq> ''mongodb'' \<and> name \<noteq> ''redis'' \<longrightarrow> confidence cfg e = 1)
        \<and> (name = ''react'' \<longrightarrow> confidence cfg e = (if isBackendOnly e then 0 else 1))
        \<and> (name = ''mongodb'' \<longrightarrow>
             confidence cfg e = (if ''mongoose'' \<in> set (dependencies e) then 1 else 0.95))
        \<and> (name = ''redis'' \<longrightarrow>
             confidence cfg e = (if ''ioredis'' \<in> set (dependencies e) then 1 else 0.95)))
     all_detectors"
  by (simp add: all_detectors_def canonical_dependency_def languageDetectors_def
        frontendDetectors_def backendDetectors_def databaseDetectors_def testingDetectors_def
        buildToolDetectors_def deploymentDetectors_def
        no_cfg_def react_confidence_def vue_dependency_scores_one angular_confidence_def
        nextjs_confidence_def express_confidence_def fastify_confidence_def koa_confidence_def
        nestjs_confidence_def fastapi_confidence_def django_confidence_def flask_confidence_def
        mongodb_confidence_def postgresql_confidence_def mysql_dependency_scores_one
        redis_confidence_def jest_confidence_def mocha_confidence_def cypress_confidence_def
        playwright_confidence_def pytest_confidence_def webpack_confidence_def
        vite_confidence_def)

subsection \<open>The claims\<close>

text \<open>
  C1 (the code departs from the claim). The claim: a compose file that declares a
  \<^verbatim>\<open>redis:\<close> service, with no redis client in any manifest, still yields \<^verbatim>\<open>redis\<close>
  in the databases list. In the project that holds only such a compose file the redis
  detector does collect the docker service \<^verbatim>\<open>redis\<close>, but its scoring function has
  no docker-service branch (those of mongodb, postgresql and mysql have one): it scores
  0 and the databases list is empty.
\<close>

theorem redis_compose_service_scores_zero:
  "database_docker_services redis_compose_project
     = [(''mongodb'', []), (''postgresql'', []), (''mysql'', []), (''redis'', [''redis''])]
   \<and> database_scores redis_compose_project
     = [(''mongodb'', 0), (''postgresql'', 0), (''mysql'', 0), (''redis'', 0)]
   \<and> databases (detect redis_compose_project) = []"
  by code_simp

text \<open>
  C2, as stated, fails: for the project with the single dependency \<^verbatim>\<open>express\<close> the
  type is backend-api and the project type record names \<^verbatim>\<open>express\<close>, but the
  \<^verbatim>\<open>primary\<close> of the result is the language \<^verbatim>\<open>javascript\<close>.
\<close>

theorem express_primary_is_language:
  "stack_type (detect express_project) = ''backend-api''
   \<and> pt_primary (run_projectType express_project) = ''express''
   \<and> frameworks (detect express_project) = [''express'']
   \<and> primary (detect express_project) = ''javascript''"
  by code_simp

text \<open>
  C2, amended. The \<^verbatim>\<open>primary\<close> of the result of \<^verbatim>\<open>detect\<close> is the first entry of
  its \<^verbatim>\<open>languages\<close> list (the empty string when no language is detected), hence empty
  or the name of a language detector, and never the name of a framework detector. That
  first language was scored at least 0.7 in the run, and no other language of the list
  was scored higher. The framework name is the \<^verbatim>\<open>primary\<close> of the record
  \<^verbatim>\<open>determineProjectType\<close> returns: when the type is backend-api it is the first of
  fastapi, django, flask among the Python dependencies, else the first of express,
  fastify, nestjs (\<^verbatim>\<open>@nestjs/core\<close>), koa among the package dependencies, else empty; when
  the type is frontend-application it is the first of react, vue, angular
  (\<^verbatim>\<open>@angular/core\<close>), svelte among the dependencies and development dependencies, else
  empty.
\<close>

theorem primary_is_first_language:
  "primary (detect p) = (case languages (detect p) of [] \<Rightarrow> [] | l # ls \<Rightarrow> l)
   \<and> primary (detect p) \<in> set ([] # map fst languageDetectors)
   \<and> primary (detect p) \<notin> set (map fst (frontendDetectors @ backendDetectors))
   \<and> (languages (detect p) = l # ls \<longrightarrow>
        (\<exists>c. (l, Inr c) \<in> set (language_scores p) \<and> 0.7 \<le> c
           \<and> (\<forall>n c'. n \<in> set ls \<and> (n, Inr c') \<in> set (language_scores p) \<longrightarrow> c' \<le> c)))
   \<and> (pt_type (determineProjectType p st pkg) = ''backend-api'' \<longrightarrow>
        pt_primary (determineProjectType p st pkg) =
          (if ''fastapi'' \<in> set (python_deps p) then ''fastapi''
           else if ''django'' \<in> set (python_deps p) then ''django''
           else if ''flask'' \<in> set (python_deps p) then ''flask''
           else case pkg of
                  None \<Rightarrow> []
                | Some pk \<Rightarrow>
                    if obj_truthy (pkg_dependencies pk) ''express'' then ''express''
                    else if obj_truthy (pkg_dependencies pk) ''fastify'' then ''fastify''
                    else if obj_truthy (pkg_dependencies pk) ''@nestjs/core'' then ''nestjs''
                    else if obj_truthy (pkg_dependencies pk) ''koa'' then ''koa''
                    else []))
   \<and> (pt_type (determineProjectType p st pkg) = ''frontend-application'' \<longrightarrow>
        pt_primary (determineProjectType p st pkg) =
          (case pkg of
             None \<Rightarrow> []
           | Some pk \<Rightarrow>
               if obj_truthy (pkg_dependencies pk @ pkg_devDependencies pk) ''react''
                 then ''react''
               else if obj_truthy (pkg_dependencies pk @ pkg_devDependencies pk) ''vue''
                 then ''vue''
               else if obj_truthy (pkg_dependencies pk @ pkg_devDependencies pk) ''@angular/core''
                 then ''angular''
               else if obj_truthy (pkg_dependencies pk @ pkg_devDependencies pk) ''svelte''
                 then ''svelte''
               else []))"
proof -
  have first: "primary (detect p) = (case languages (detect p) of [] \<Rightarrow> [] | l # ls \<Rightarrow> l)
      \<and> primary (detect p) \<in> set ([] # map fst languageDetectors)"
  proof (cases "detect_try p")
    case (Inl err)
    then show ?thesis by (simp add: detect_failure getEmptyResult_def)
  next
    case (Inr r)
    from detect_try_success [OF Inr] obtain langs where
      l: "detectLanguages p = Inr langs" "languages r = langs"
         "primary r = (case langs of [] \<Rightarrow> [] | l # ls \<Rightarrow> l)"
      by blast
    have "primary r \<in> set ([] # map fst languageDetectors)"
    proof (cases langs)
      case Nil
      with l(3) show ?thesis by simp
    next
      case (Cons a as)
      with language_names [OF l(1), of a] l(3) show ?thesis by simp
    qed
    with l show ?thesis by (simp add: detect_success [OF Inr])
  qed
  have not_framework:
    "primary (detect p) \<notin> set (map fst (frontendDetectors @ backendDetectors))"
    using first language_names_are_not_framework_names by blast
  have highest: "languages (detect p) = l # ls \<longrightarrow>
        (\<exists>c. (l, Inr c) \<in> set (language_scores p) \<and> 0.7 \<le> c
           \<and> (\<forall>n c'. n \<in> set ls \<and> (n, Inr c') \<in> set (language_scores p) \<longrightarrow> c' \<le> c))"
  proof
    assume nonempty: "languages (detect p) = l # ls"
    show "\<exists>c. (l, Inr c) \<in> set (language_scores p) \<and> 0.7 \<le> c
           \<and> (\<forall>n c'. n \<in> set ls \<and> (n, Inr c') \<in> set (language_scores p) \<longrightarrow> c' \<le> c)"
    proof (cases "detect_try p")
      case (Inl err)
      with nonempty show ?thesis by (simp add: detect_failure getEmptyResult_def)
    next
      case (Inr r)
      from detect_try_success [OF Inr] nonempty detect_success [OF Inr]
      have "detectLanguages p = Inr (l # ls)" by auto
      then show ?thesis by (rule first_language_highest)
    qed
  qed
  have backend: "pt_type (determineProjectType p st pkg) = ''backend-api'' \<longrightarrow>
        pt_primary (determineProjectType p st pkg) =
          (if ''fastapi'' \<in> set (python_deps p) then ''fastapi''
           else if ''django'' \<in> set (python_deps p) then ''django''
           else if ''flask'' \<in> set (python_deps p) then ''flask''
           else case pkg of
                  None \<Rightarrow> []
                | Some pk \<Rightarrow>
                    if obj_truthy (pkg_dependencies pk) ''express'' then ''express''
                    else if obj_truthy (pkg_dependencies pk) ''fastify'' then ''fastify''
                    else if obj_truthy (pkg_dependencies pk) ''@nestjs/core'' then ''nestjs''
                    else if obj_truthy (pkg_dependencies pk) ''koa'' then ''koa''
                    else [])"
    by (simp add: determineProjectType_def backend_primary_def readPythonDependencies_def
          Let_def split: option.splits)
  have frontend: "pt_type (determineProjectType p st pkg) = ''frontend-application'' \<longrightarrow>
        pt_primary (determineProjectType p st pkg) =
          (case pkg of
             None \<Rightarrow> []
           | Some pk \<Rightarrow>
               if obj_truthy (pkg_dependencies pk @ pkg_devDependencies pk) ''react''
                 then ''react''
               else if obj_truthy (pkg_dependencies pk @ pkg_devDependencies pk) ''vue''
                 then ''vue''
               else if obj_truthy (pkg_dependencies pk @ pkg_devDependencies pk) ''@angular/core''
                 then ''angular''
               else if obj_truthy (pkg_dependencies pk @ pkg_devDependencies pk) ''svelte''
                 then ''svelte''
               else [])"
    by (simp add: determineProjectType_def frontend_primary_def obj_spread_def
          Let_def split: option.splits)
  show ?thesis
    by (rule conjI [OF first [THEN conjunct1] conjI [OF first [THEN conjunct2]
          conjI [OF not_framework conjI [OF highest conjI [OF backend frontend]]]]])
qed

theorem primary_is_first_language_witness:
  "languages (detect go_typescript_project) = [''go'', ''typescript'']
   \<and> primary (detect go_typescript_project) = ''go''
   \<and> language_scores go_typescript_project
       = [(''javascript'', Inr 0), (''typescript'', Inr 0.7), (''python'', Inr 0.6),
          (''java'', Inr 0), (''go'', Inr 1)]
   \<and> (\<exists>c. (''go'', Inr c) \<in> set (language_scores go_typescript_project) \<and> 0.7 \<le> c
        \<and> (\<forall>c'. (''typescript'', Inr c') \<in> set (language_scores go_typescript_project)
               \<longrightarrow> c' \<le> c))
   \<and> pt_type (run_projectType koa_express_project) = ''backend-api''
   \<and> pt_primary (run_projectType koa_express_project) = ''express''
   \<and> pt_type (run_projectType flask_django_project) = ''backend-api''
   \<and> pt_primary (run_projectType flask_django_project) = ''django''
   \<and> pt_type (run_projectType vue_dev_react_project) = ''frontend-application''
   \<and> pt_primary (run_projectType vue_dev_react_project) = ''react''"
proof -
  note th = primary_is_first_language
  have l: "languages (detect go_typescript_project) = [''go'', ''typescript'']"
    and s: "language_scores go_typescript_project
       = [(''javascript'', Inr 0), (''typescript'', Inr 0.7), (''python'', Inr 0.6),
          (''java'', Inr 0), (''go'', Inr 1)]"
    by code_simp+
  have p: "primary (detect go_typescript_project) = ''go''"
    using th [where p = go_typescript_project, THEN conjunct1] l by simp
  have h: "\<exists>c. (''go'', Inr c) \<in> set (language_scores go_typescript_project) \<and> 0.7 \<le> c
        \<and> (\<forall>c'. (''typescript'', Inr c') \<in> set (language_scores go_typescript_project)
               \<longrightarrow> c' \<le> c)"
    using th [where p = go_typescript_project and l = "''go''" and ls = "[''typescript'']",
        THEN conjunct2, THEN conjunct2, THEN conjunct2, THEN conjunct1, THEN mp, OF l]
    by auto
  have t: "pt_type (run_projectType koa_express_project) = ''backend-api''"
    "pt_type (run_projectType flask_django_project) = ''backend-api''"
    "pt_type (run_projectType vue_dev_react_project) = ''frontend-application''"
    by code_simp+
  have b1: "pt_primary (run_projectType koa_express_project) = ''express''"
    using th [where p = koa_express_project
        and st = "analyzeProjectStructure koa_express_project"
        and pkg = "readPackageJson koa_express_project",
        THEN conjunct2, THEN conjunct2, THEN conjunct2, THEN conjunct2, THEN conjunct1,
        THEN mp, OF t(1) [unfolded run_projectType_def]]
    by (simp add: run_projectType_def readPackageJson_def koa_express_project_def
          empty_project_def empty_package_def obj_truthy_def obj_get_def)
  have b2: "pt_primary (run_projectType flask_django_project) = ''django''"
    using th [where p = flask_django_project
        and st = "analyzeProjectStructure flask_django_project"
        and pkg = "readPackageJson flask_django_project",
        THEN conjunct2, THEN conjunct2, THEN conjunct2, THEN conjunct2, THEN conjunct1,
        THEN mp, OF t(2) [unfolded run_projectType_def]]
    by (simp add: run_projectType_def flask_django_project_def)
  have f: "pt_primary (run_projectType vue_dev_react_project) = ''react''"
    using th [where p = vue_dev_react_project
        and st = "analyzeProjectStructure vue_dev_react_project"
        and pkg = "readPackageJson vue_dev_react_project",
        THEN conjunct2, THEN conjunct2, THEN conjunct2, THEN conjunct2, THEN conjunct2,
        THEN mp, OF t(3) [unfolded run_projectType_def]]
    by (simp add: run_projectType_def readPackageJson_def vue_dev_react_project_def
          empty_project_def empty_package_def obj_truthy_def obj_get_def)
  show ?thesis by (intro conjI; fact)
qed

text \<open>
  C3 (the code departs from the claim). The claim: no two names that a detector's
  \<^verbatim>\<open>exclusiveWith\<close> set registers as mutually exclusive are both in one category of
  the result. The fastify detector declares \<^verbatim>\<open>koa\<close> in its \<^verbatim>\<open>exclusiveWith\<close> set,
  but \<^verbatim>\<open>resolveConflicts\<close> reads the table \<^verbatim>\<open>mutualExclusions\<close>, which has no
  entry for fastify or koa: with both packages as dependencies both names stay in the
  frameworks list.
\<close>

theorem fastify_koa_both_survive:
  "map_option cfg_exclusiveWith (map_of backendDetectors ''fastify'')
     = Some (Some [''express'', ''koa'', ''hapi''])
   \<and> map_of mutualExclusions ''fastify'' = None
   \<and> map_of mutualExclusions ''koa'' = None
   \<and> frameworks (detect fastify_koa_project) = [''fastify'', ''koa'']"
  by code_simp




text \<open>
  C5, as stated, fails at three detectors, the canonical dependency of a detector being
  the first name of the \<^verbatim>\<open>dependencies\<close> list it declares in the registry. react scores 0
  on evidence that holds \<^verbatim>\<open>react\<close> with \<^verbatim>\<open>isBackendOnly\<close> true; mongodb scores 0.95 on
  evidence that holds \<^verbatim>\<open>mongodb\<close>; redis scores 0.95 on evidence that holds \<^verbatim>\<open>redis\<close>.
\<close>

theorem canonical_dependency_below_one:
  "(\<exists>cfg. (''react'', cfg) \<in> set all_detectors
       \<and> canonical_dependency cfg = Some ''react''
       \<and> ''react'' \<in> set (dependencies react_backend_only_evidence)
       \<and> isBackendOnly react_backend_only_evidence
       \<and> confidence cfg react_backend_only_evidence = 0)
   \<and> (\<exists>cfg. (''mongodb'', cfg) \<in> set all_detectors
       \<and> canonical_dependency cfg = Some ''mongodb''
       \<and> ''mongodb'' \<in> set (dependencies mongodb_package_evidence)
       \<and> confidence cfg mongodb_package_evidence = 0.95)
   \<and> (\<exists>cfg. (''redis'', cfg) \<in> set all_detectors
       \<and> canonical_dependency cfg = Some ''redis''
       \<and> ''redis'' \<in> set (dependencies redis_package_evidence)
       \<and> confidence cfg redis_package_evidence = 0.95)"
proof -
  have "map_option (\<lambda>cfg. (canonical_dependency cfg, confidence cfg react_backend_only_evidence))
          (map_of all_detectors ''react'') = Some (Some ''react'', 0)"
    by code_simp
  from registered_detector [OF this]
  have "\<exists>cfg. (''react'', cfg) \<in> set all_detectors
       \<and> canonical_dependency cfg = Some ''react''
       \<and> confidence cfg react_backend_only_evidence = 0"
    by simp
  moreover have "''react'' \<in> set (dependencies react_backend_only_evidence)
       \<and> isBackendOnly react_backend_only_evidence"
    by code_simp
  ultimately have react: "\<exists>cfg. (''react'', cfg) \<in> set all_detectors
       \<and> canonical_dependency cfg = Some ''react''
       \<and> ''react'' \<in> set (dependencies react_backend_only_evidence)
       \<and> isBackendOnly react_backend_only_evidence
       \<and> confidence cfg react_backend_only_evidence = 0"
    by blast
  have "map_option (\<lambda>cfg. (canonical_dependency cfg, confidence cfg mongodb_package_evidence))
          (map_of all_detectors ''mongodb'') = Some (Some ''mongodb'', 0.95)"
    by code_simp
  from registered_detector [OF this]
  have "\<exists>cfg. (''mongodb'', cfg) \<in> set all_detectors
       \<and> canonical_dependency cfg = Some ''mongodb''
       \<and> confidence cfg mongodb_package_evidence = 0.95"
    by simp
  moreover have "''mongodb'' \<in> set (dependencies mongodb_package_evidence)"
    by code_simp
  ultimately have mongodb: "\<exists>cfg. (''mongodb'', cfg) \<in> set all_detectors
       \<and> canonical_dependency cfg = Some ''mongodb''
       \<and> ''mongodb'' \<in> set (dependencies mongodb_package_evidence)
       \<and> confidence cfg mongodb_package_evidence = 0.95"
    by blast
  have "map_option (\<lambda>cfg. (canonical_dependency cfg, confidence cfg redis_package_evidence))
          (map_of all_detectors ''redis'') = Some (Some ''redis'', 0.95)"
    by code_simp
  from registered_detector [OF this]
  have "\<exists>cfg. (''redis'', cfg) \<in> set all_detectors
       \<and> canonical_dependency cfg = Some ''redis''
       \<and> confidence cfg redis_package_evidence = 0.95"
    by simp
  moreover have "''redis'' \<in> set (dependencies redis_package_evidence)"
    by code_simp
  ultimately have redis: "\<exists>cfg. (''redis'', cfg) \<in> set all_detectors
       \<and> canonical_dependency cfg = Some ''redis''
       \<and> ''redis'' \<in> set (dependencies redis_package_evidence)
       \<and> confidence cfg redis_package_evidence = 0.95"
    by blast
  show ?thesis by (intro conjI; fact)
qed

text \<open>
  C5, amended. For every registered detector that declares dependencies, evidence that
  holds its canonical dependency scores exactly 1, with three exceptions: react scores 0
  when \<^verbatim>\<open>isBackendOnly\<close> is true in the evidence; mongodb scores 0.95 unless the evidence
  also holds \<^verbatim>\<open>mongoose\<close>, and redis scores 0.95 unless the evidence also holds
  \<^verbatim>\<open>ioredis\<close> (then they score 1).
\<close>

theorem canonical_dependency_scores_one:
  assumes "(name, cfg) \<in> set all_detectors"
    and "canonical_dependency cfg = Some dep"
    and "dep \<in> set (dependencies e)"
  shows "(name \<noteq> ''react'' \<and> name \<noteq> ''mongodb'' \<and> name \<noteq> ''redis'' \<longrightarrow> confidence cfg e = 1)
     \<and> (name = ''react'' \<longrightarrow> confidence cfg e = (if isBackendOnly e then 0 else 1))
     \<and> (name = ''mongodb'' \<longrightarrow>
          confidence cfg e = (if ''mongoose'' \<in> set (dependencies e) then 1 else 0.95))
     \<and> (name = ''redis'' \<longrightarrow>
          confidence cfg e = (if ''ioredis'' \<in> set (dependencies e) then 1 else 0.95))"
proof -
  from canonical_dependency_registry [unfolded list_all_iff] assms(1)
  have "\<forall>dep e.
      canonical_dependency cfg = Some dep \<and> dep \<in> set (dependencies e) \<longrightarrow>
        (name \<noteq> ''react'' \<and> name \<noteq> ''mongodb'' \<and> name \<noteq> ''redis'' \<longrightarrow> confidence cfg e = 1)
        \<and> (name = ''react'' \<longrightarrow> confidence cfg e = (if isBackendOnly e then 0 else 1))
        \<and> (name = ''mongodb'' \<longrightarrow>
             confidence cfg e = (if ''mongoose'' \<in> set (dependencies e) then 1 else 0.95))
        \<and> (name = ''redis'' \<longrightarrow>
             confidence cfg e = (if ''ioredis'' \<in> set (dependencies e) then 1 else 0.95))"
    by fastforce
  with assms(2,3) show ?thesis by blast
qed

theorem canonical_dependency_scores_one_witness:
  "(\<exists>cfg. (''react'', cfg) \<in> set all_detectors
       \<and> canonical_dependency cfg = Some ''react''
       \<and> ''react'' \<in> set (dependencies react_dependency_evidence)
       \<and> confidence cfg react_dependency_evidence = 1)
   \<and> (\<exists>cfg. (''react'', cfg) \<in> set all_detectors
       \<and> canonical_dependency cfg = Some ''react''
       \<and> ''react'' \<in> set (dependencies react_backend_only_evidence)
       \<and> confidence cfg react_backend_only_evidence = 0)
   \<and> (\<exists>cfg. (''vue'', cfg) \<in> set all_detectors
       \<and> canonical_dependency cfg = Some ''vue''
       \<and> ''vue'' \<in> set (dependencies vue_dependency_evidence)
       \<and> confidence cfg vue_dependency_evidence = 1)
   \<and> (\<exists>cfg. (''mongodb'', cfg) \<in> set all_detectors
       \<and> canonical_dependency cfg = Some ''mongodb''
       \<and> ''mongodb'' \<in> set (dependencies mongodb_package_evidence)
       \<and> confidence cfg mongodb_package_evidence = 0.95)
   \<and> (\<exists>cfg. (''redis'', cfg) \<in> set all_detectors
       \<and> canonical_dependency cfg = Some ''redis''
       \<and> ''redis'' \<in> set (dependencies redis_package_evidence)
       \<and> confidence cfg redis_package_evidence = 0.95)"
proof -
  note th = canonical_dependency_scores_one
  have r: "map_option canonical_dependency (map_of all_detectors ''react'') = Some (Some ''react'')"
    by code_simp
  have v: "map_option canonical_dependency (map_of all_detectors ''vue'') = Some (Some ''vue'')"
    by code_simp
  have m: "map_option canonical_dependency (map_of all_detectors ''mongodb'')
             = Some (Some ''mongodb'')"
    by code_simp
  have s: "map_option canonical_dependency (map_of all_detectors ''redis'') = Some (Some ''redis'')"
    by code_simp
  have dr: "''react'' \<in> set (dependencies react_dependency_evidence)"
    and nb: "\<not> isBackendOnly react_dependency_evidence"
    and db: "''react'' \<in> set (dependencies react_backend_only_evidence)"
    and bo: "isBackendOnly react_backend_only_evidence"
    and dv: "''vue'' \<in> set (dependencies vue_dependency_evidence)"
    and dm: "''mongodb'' \<in> set (dependencies mongodb_package_evidence)"
    and nm: "''mongoose'' \<notin> set (dependencies mongodb_package_evidence)"
    and ds: "''redis'' \<in> set (dependencies redis_package_evidence)"
    and ns: "''ioredis'' \<notin> set (dependencies redis_package_evidence)"
    by code_simp+
  from registered_detector [OF r] obtain rcfg where
    r1: "(''react'', rcfg) \<in> set all_detectors" and r2: "canonical_dependency rcfg = Some ''react''"
    by blast
  from registered_detector [OF v] obtain vcfg where
    v1: "(''vue'', vcfg) \<in> set all_detectors" and v2: "canonical_dependency vcfg = Some ''vue''"
    by blast
  from registered_detector [OF m] obtain mcfg where
    m1: "(''mongodb'', mcfg) \<in> set all_detectors"
    and m2: "canonical_dependency mcfg = Some ''mongodb''"
    by blast
  from registered_detector [OF s] obtain scfg where
    s1: "(''redis'', scfg) \<in> set all_detectors" and s2: "canonical_dependency scfg = Some ''redis''"
    by blast
  have "confidence rcfg react_dependency_evidence = 1"
    using th [OF r1 r2 dr, THEN conjunct2, THEN conjunct1] nb by simp
  with r1 r2 dr have a1: "\<exists>cfg. (''react'', cfg) \<in> set all_detectors
       \<and> canonical_dependency cfg = Some ''react''
       \<and> ''react'' \<in> set (dependencies react_dependency_evidence)
       \<and> confidence cfg react_dependency_evidence = 1"
    by blast
  have "confidence rcfg react_backend_only_evidence = 0"
    using th [OF r1 r2 db, THEN conjunct2, THEN conjunct1] bo by simp
  with r1 r2 db have a2: "\<exists>cfg. (''react'', cfg) \<in> set all_detectors
       \<and> canonical_dependency cfg = Some ''react''
       \<and> ''react'' \<in> set (dependencies react_backend_only_evidence)
       \<and> confidence cfg react_backend_only_evidence = 0"
    by blast
  have "confidence vcfg vue_dependency_evidence = 1"
    using th [OF v1 v2 dv, THEN conjunct1] by simp
  with v1 v2 dv have a3: "\<exists>cfg. (''vue'', cfg) \<in> set all_detectors
       \<and> canonical_dependency cfg = Some ''vue''
       \<and> ''vue'' \<in> set (dependencies vue_dependency_evidence)
       \<and> confidence cfg vue_dependency_evidence = 1"
    by blast
  have "confidence mcfg mongodb_package_evidence = 0.95"
    using th [OF m1 m2 dm, THEN conjunct2, THEN conjunct2, THEN conjunct1] nm by simp
  with m1 m2 dm have a4: "\<exists>cfg. (''mongodb'', cfg) \<in> set all_detectors
       \<and> canonical_dependency cfg = Some ''mongodb''
       \<and> ''mongodb'' \<in> set (dependencies mongodb_package_evidence)
       \<and> confidence cfg mongodb_package_evidence = 0.95"
    by blast
  have "confidence scfg redis_package_evidence = 0.95"
    using th [OF s1 s2 ds, THEN conjunct2, THEN conjunct2, THEN conjunct2] ns by simp
  with s1 s2 ds have a5: "\<exists>cfg. (''redis'', cfg) \<in> set all_detectors
       \<and> canonical_dependency cfg = Some ''redis''
       \<and> ''redis'' \<in> set (dependencies redis_package_evidence)
       \<and> confidence cfg redis_package_evidence = 0.95"
    by blast
  show ?thesis by (intro conjI; fact)
qed

text \<open>
  C6 (the code departs from the claim). The claim: \<^verbatim>\<open>patterns\<close> is the union of the
  category lists of the same final result, so a name removed by conflict resolution is
  not in it. \<^verbatim>\<open>patterns\<close> is collected before \<^verbatim>\<open>resolveConflicts\<close> runs and is not
  filtered by it: with \<^verbatim>\<open>react\<close> and \<^verbatim>\<open>vue\<close> as dependencies, \<^verbatim>\<open>vue\<close> is removed
  from the frameworks and stays in \<^verbatim>\<open>patterns\<close>.
\<close>

theorem react_vue_patterns_stale:
  "frameworks (detect react_vue_project) = [''react'']
   \<and> databases (detect react_vue_project) = []
   \<and> testing (detect react_vue_project) = []
   \<and> buildTools (detect react_vue_project) = []
   \<and> deployment (detect react_vue_project) = []
   \<and> stack_patterns (detect react_vue_project) = [''react'', ''vue'']"
  by code_simp

text \<open>
  C7. A name is in a category of the result of \<^verbatim>\<open>detect\<close> (languages, frameworks,
  databases, testing, buildTools, deployment, and the flat \<^verbatim>\<open>patterns\<close>) only if its
  detector computed a confidence of at least 0.7 in that run, and a name whose detector
  computed less than 0.7 is in no category. In a run that does not throw, a language,
  database or deployment detector that computed at least 0.7 is in its category; so is a
  framework, testing or build tool detector that no entry of \<^verbatim>\<open>mutualExclusions\<close>
  names, the framework detectors when their half is run; and \<^verbatim>\<open>patterns\<close> holds
  exactly the names accepted before conflict resolution. Each detection loop, over any
  registry of detectors, accepts exactly the detectors whose confidence is at least 0.7:
  one whose confidence is exactly 0.70 is accepted and, the names being distinct, one
  whose confidence is 0.69 is rejected.
\<close>

theorem accepted_detections_reach_threshold:
  "((n \<in> set (languages (detect p)) \<longrightarrow>
      (\<exists>c. (n, Inr c) \<in> set (language_scores p) \<and> 0.7 \<le> c))
   \<and> (n \<in> set (frameworks (detect p)) \<longrightarrow>
      (\<exists>c. (n, Inr c) \<in> set (framework_scores p (frontendDetectors @ backendDetectors))
           \<and> 0.7 \<le> c))
   \<and> (n \<in> set (databases (detect p)) \<longrightarrow> (\<exists>c. (n, c) \<in> set (database_scores p) \<and> 0.7 \<le> c))
   \<and> (n \<in> set (testing (detect p)) \<longrightarrow> (\<exists>c. (n, c) \<in> set (testing_scores p) \<and> 0.7 \<le> c))
   \<and> (n \<in> set (buildTools (detect p)) \<longrightarrow> (\<exists>c. (n, c) \<in> set (buildTool_scores p) \<and> 0.7 \<le> c))
   \<and> (n \<in> set (deployment (detect p)) \<longrightarrow> (\<exists>c. (n, c) \<in> set (deployment_scores p) \<and> 0.7 \<le> c))
   \<and> (n \<in> set (stack_patterns (detect p)) \<longrightarrow>
      (\<exists>c. ((n, Inr c) \<in> set (framework_scores p (frontendDetectors @ backendDetectors))
            \<or> (n, c) \<in> set (database_scores p @ testing_scores p @ buildTool_scores p
                               @ deployment_scores p))
           \<and> 0.7 \<le> c)))
   \<and> (((n, Inr c) \<in> set (language_scores p) \<and> c < 0.7 \<longrightarrow> n \<notin> set (languages (detect p)))
   \<and> ((n, Inr c) \<in> set (framework_scores p (frontendDetectors @ backendDetectors)) \<and> c < 0.7
        \<longrightarrow> n \<notin> set (frameworks (detect p)))
   \<and> ((n, c) \<in> set (database_scores p) \<and> c < 0.7 \<longrightarrow> n \<notin> set (databases (detect p)))
   \<and> ((n, c) \<in> set (testing_scores p) \<and> c < 0.7 \<longrightarrow> n \<notin> set (testing (detect p)))
   \<and> ((n, c) \<in> set (buildTool_scores p) \<and> c < 0.7 \<longrightarrow> n \<notin> set (buildTools (detect p)))
   \<and> ((n, c) \<in> set (deployment_scores p) \<and> c < 0.7 \<longrightarrow> n \<notin> set (deployment (detect p))))
   \<and> (detect_try p = Inr r \<longrightarrow>
   (((n \<in> set (languages r)) = (\<exists>c. (n, Inr c) \<in> set (language_scores p) \<and> 0.7 \<le> c))
   \<and> ((n \<in> set (databases r)) = (\<exists>c. (n, c) \<in> set (database_scores p) \<and> 0.7 \<le> c))
   \<and> ((n \<in> set (deployment r)) = (\<exists>c. (n, c) \<in> set (deployment_scores p) \<and> 0.7 \<le> c))
   \<and> ((n, Inr c) \<in> set (framework_scores p frontendDetectors) \<and> 0.7 \<le> c
        \<and> \<not> pt_isBackendOnly (run_projectType p) \<and> n \<notin> set excluded_names
        \<longrightarrow> n \<in> set (frameworks r))
   \<and> ((n, Inr c) \<in> set (framework_scores p backendDetectors) \<and> 0.7 \<le> c
        \<and> \<not> pt_isFrontendOnly (run_projectType p) \<and> n \<notin> set excluded_names
        \<longrightarrow> n \<in> set (frameworks r))
   \<and> ((n, c) \<in> set (testing_scores p) \<and> 0.7 \<le> c \<and> n \<notin> set excluded_names
        \<longrightarrow> n \<in> set (testing r))
   \<and> ((n, c) \<in> set (buildTool_scores p) \<and> 0.7 \<le> c \<and> n \<notin> set excluded_names
        \<longrightarrow> n \<in> set (buildTools r))
   \<and> ((n \<in> set (stack_patterns r)) =
        ((\<exists>c. (n, Inr c) \<in> set (framework_scores p frontendDetectors) \<and> 0.7 \<le> c
              \<and> \<not> pt_isBackendOnly (run_projectType p))
         \<or> (\<exists>c. (n, Inr c) \<in> set (framework_scores p backendDetectors) \<and> 0.7 \<le> c
              \<and> \<not> pt_isFrontendOnly (run_projectType p))
         \<or> (\<exists>c. (n, c) \<in> set (database_scores p @ testing_scores p @ buildTool_scores p
                                @ deployment_scores p) \<and> 0.7 \<le> c)))))
   \<and> (((m \<in> set (detect_all gather ds)) =
       (\<exists>cfg. (m, cfg) \<in> set ds \<and> 0.7 \<le> confidence cfg (gather cfg)))
   \<and> (detect_loop gather' ds = Inr detected \<longrightarrow>
        ((m, c) \<in> set detected) =
          (\<exists>cfg ev. (m, cfg) \<in> set ds \<and> gather' cfg = Inr ev \<and> confidence cfg ev = c
                    \<and> 0.7 \<le> c))
   \<and> ((m, cfg) \<in> set ds \<and> confidence cfg (gather cfg) = 0.70 \<longrightarrow>
        m \<in> set (detect_all gather ds))
   \<and> (distinct (map fst ds) \<and> (m, cfg) \<in> set ds \<and> confidence cfg (gather cfg) = 0.69 \<longrightarrow>
        m \<notin> set (detect_all gather ds))
   \<and> (detect_loop gather' ds = Inr detected \<and> (m, cfg) \<in> set ds \<and> gather' cfg = Inr ev
        \<and> confidence cfg ev = 0.70 \<longrightarrow> (m, 0.70) \<in> set detected)
   \<and> (detect_loop gather' ds = Inr detected \<and> distinct (map fst ds) \<and> (m, cfg) \<in> set ds
        \<and> gather' cfg = Inr ev \<and> confidence cfg ev = 0.69 \<longrightarrow> m \<notin> fst ` set detected)
   \<and> (confidence cfg (gather cfg) = 0.70 \<longrightarrow> detect_all gather [(m, cfg)] = [m])
   \<and> (confidence cfg (gather cfg) = 0.69 \<longrightarrow> detect_all gather [(m, cfg)] = [])
   \<and> (gather' cfg = Inr ev \<and> confidence cfg ev = 0.70 \<longrightarrow>
        detect_loop gather' [(m, cfg)] = Inr [(m, 0.70)])
   \<and> (gather' cfg = Inr ev \<and> confidence cfg ev = 0.69 \<longrightarrow>
        detect_loop gather' [(m, cfg)] = Inr []))
   \<and> ((0.7::rat) \<le> 0.70 \<and> (0.69::rat) < 0.7)"
proof -
  have numerals: "(0.7::rat) \<le> 0.70 \<and> (0.69::rat) < 0.7" by simp
  show ?thesis
    by (rule conjI [OF threshold_only_if conjI [OF threshold_rejects
          conjI [OF threshold_accepts conjI [OF threshold_loops numerals]]]])
qed

theorem accepted_detections_reach_threshold_witness:
  "(''typescript'', Inr 0.7) \<in> set (language_scores threshold_project)
   \<and> ''typescript'' \<in> set (languages (detect threshold_project))
   \<and> (''pytest'', 0.7) \<in> set (testing_scores threshold_project)
   \<and> ''pytest'' \<in> set (testing (detect threshold_project))
   \<and> (''uv'', 0.7) \<in> set (buildTool_scores threshold_project)
   \<and> ''uv'' \<in> set (buildTools (detect threshold_project))
   \<and> ''uv'' \<in> set (stack_patterns (detect threshold_project))
   \<and> (''python'', Inr 0.6) \<in> set (language_scores threshold_project)
   \<and> ''python'' \<notin> set (languages (detect threshold_project))
   \<and> ''express'' \<in> set (frameworks (detect node_service_project))
   \<and> (\<exists>c. (''express'', Inr c) \<in> set (framework_scores node_service_project
              (frontendDetectors @ backendDetectors)) \<and> 0.7 \<le> c)
   \<and> (''mongodb'', 1) \<in> set (database_scores node_service_project)
   \<and> ''mongodb'' \<in> set (databases (detect node_service_project))
   \<and> (''docker'', 1) \<in> set (deployment_scores node_service_project)
   \<and> ''docker'' \<in> set (deployment (detect node_service_project))
   \<and> (''react'', Inr 0) \<in> set (framework_scores node_service_project
              (frontendDetectors @ backendDetectors))
   \<and> ''react'' \<notin> set (frameworks (detect node_service_project))
   \<and> (''redis'', 0) \<in> set (database_scores node_service_project)
   \<and> ''redis'' \<notin> set (databases (detect node_service_project))
   \<and> (''mocha'', 0) \<in> set (testing_scores node_service_project)
   \<and> ''mocha'' \<notin> set (testing (detect node_service_project))
   \<and> (''vite'', 0) \<in> set (buildTool_scores node_service_project)
   \<and> ''vite'' \<notin> set (buildTools (detect node_service_project))
   \<and> (''kubernetes'', 0) \<in> set (deployment_scores node_service_project)
   \<and> ''kubernetes'' \<notin> set (deployment (detect node_service_project))
   \<and> (''nextjs'', Inr 1) \<in> set (framework_scores next_project frontendDetectors)
   \<and> ''nextjs'' \<in> set (frameworks (detect next_project))
   \<and> confidence threshold_detector empty_evidence = 0.70
   \<and> confidence below_threshold_detector empty_evidence = 0.69
   \<and> ''at'' \<in> set (detect_all (\<lambda>cfg. empty_evidence) threshold_registry)
   \<and> ''below'' \<notin> set (detect_all (\<lambda>cfg. empty_evidence) threshold_registry)
   \<and> detect_loop (\<lambda>cfg. Inr empty_evidence) threshold_registry = Inr [(''at'', 0.70)]
   \<and> detect_all (\<lambda>cfg. empty_evidence) [(''at'', threshold_detector)] = [''at'']
   \<and> detect_all (\<lambda>cfg. empty_evidence) [(''below'', below_threshold_detector)] = []"
proof -
  note th = accepted_detections_reach_threshold
  have num: "(0.7::rat) \<le> 0.7" "(0.6::rat) < 0.7" "(0.7::rat) \<le> 1" "(0::rat) < 0.7"
    by simp_all
  have ok: "detect_try threshold_project = Inr (detect threshold_project)"
    "detect_try node_service_project = Inr (detect node_service_project)"
    "detect_try next_project = Inr (detect next_project)"
  proof -
    have "detect_try threshold_project \<noteq> Inl TypeError"
      "detect_try node_service_project \<noteq> Inl TypeError"
      "detect_try next_project \<noteq> Inl TypeError"
      by code_simp+
    then show "detect_try threshold_project = Inr (detect threshold_project)"
      "detect_try node_service_project = Inr (detect node_service_project)"
      "detect_try next_project = Inr (detect next_project)"
      using not_thrown [of "detect_try threshold_project"]
        not_thrown [of "detect_try node_service_project"]
        not_thrown [of "detect_try next_project"]
      by (auto simp: detect_def)
  qed
  have s: "(''typescript'', Inr 0.7) \<in> set (language_scores threshold_project)"
    "(''pytest'', 0.7) \<in> set (testing_scores threshold_project)"
    "(''uv'', 0.7) \<in> set (buildTool_scores threshold_project)"
    "(''python'', Inr 0.6) \<in> set (language_scores threshold_project)"
    "(''mongodb'', 1) \<in> set (database_scores node_service_project)"
    "(''docker'', 1) \<in> set (deployment_scores node_service_project)"
    "(''react'', Inr 0) \<in> set (framework_scores node_service_project
              (frontendDetectors @ backendDetectors))"
    "(''redis'', 0) \<in> set (database_scores node_service_project)"
    "(''mocha'', 0) \<in> set (testing_scores node_service_project)"
    "(''vite'', 0) \<in> set (buildTool_scores node_service_project)"
    "(''kubernetes'', 0) \<in> set (deployment_scores node_service_project)"
    "(''nextjs'', Inr 1) \<in> set (framework_scores next_project frontendDetectors)"
    by code_simp+
  have g: "''pytest'' \<notin> set excluded_names" "''uv'' \<notin> set excluded_names"
    "''nextjs'' \<notin> set excluded_names" "\<not> pt_isBackendOnly (run_projectType next_project)"
    "''express'' \<in> set (frameworks (detect node_service_project))"
    by code_simp+
  have a1: "''typescript'' \<in> set (languages (detect threshold_project))"
    using th [where n = "''typescript''" and p = threshold_project
        and r = "detect threshold_project", THEN conjunct2, THEN conjunct2, THEN conjunct1, THEN mp, OF ok(1), THEN conjunct1] s(1) num(1) by blast
  have a2: "''pytest'' \<in> set (testing (detect threshold_project))"
    using th [where n = "''pytest''" and c = "0.7" and p = threshold_project
        and r = "detect threshold_project", THEN conjunct2, THEN conjunct2, THEN conjunct1, THEN mp, OF ok(1), THEN conjunct2, THEN conjunct2, THEN conjunct2, THEN conjunct2, THEN conjunct2, THEN conjunct1] s(2) num(1) g(1) by blast
  have a3: "''uv'' \<in> set (buildTools (detect threshold_project))"
    using th [where n = "''uv''" and c = "0.7" and p = threshold_project
        and r = "detect threshold_project", THEN conjunct2, THEN conjunct2, THEN conjunct1, THEN mp, OF ok(1), THEN conjunct2, THEN conjunct2, THEN conjunct2, THEN conjunct2, THEN conjunct2, THEN conjunct2, THEN conjunct1] s(3) num(1) g(2) by blast
  have a4: "''uv'' \<in> set (stack_patterns (detect threshold_project))"
  proof -
    have "(''uv'', 0.7) \<in> set (database_scores threshold_project
        @ testing_scores threshold_project @ buildTool_scores threshold_project
        @ deployment_scores threshold_project)"
      using s(3) by simp
    with th [where n = "''uv''" and p = threshold_project
        and r = "detect threshold_project", THEN conjunct2, THEN conjunct2, THEN conjunct1, THEN mp, OF ok(1), THEN conjunct2, THEN conjunct2, THEN conjunct2, THEN conjunct2, THEN conjunct2, THEN conjunct2, THEN conjunct2] num(1) show ?thesis by blast
  qed
  have a5: "''python'' \<notin> set (languages (detect threshold_project))"
    using th [where n = "''python''" and c = "0.6" and p = threshold_project, THEN conjunct2, THEN conjunct1] s(4) num(2)
    by blast
  have a6: "\<exists>c. (''express'', Inr c) \<in> set (framework_scores node_service_project
              (frontendDetectors @ backendDetectors)) \<and> 0.7 \<le> c"
    using th [where n = "''express''" and p = node_service_project, THEN conjunct1] g(5) by blast
  have a7: "''mongodb'' \<in> set (databases (detect node_service_project))"
    "''docker'' \<in> set (deployment (detect node_service_project))"
    using th [where n = "''mongodb''" and p = node_service_project
        and r = "detect node_service_project", THEN conjunct2, THEN conjunct2, THEN conjunct1, THEN mp, OF ok(2), THEN conjunct2, THEN conjunct1]
      th [where n = "''docker''" and p = node_service_project
        and r = "detect node_service_project", THEN conjunct2, THEN conjunct2, THEN conjunct1, THEN mp, OF ok(2), THEN conjunct2, THEN conjunct2, THEN conjunct1] s(5,6) num(3) by blast+
  have a8_1: "''react'' \<notin> set (frameworks (detect node_service_project))"
    using th [where n = "''react''" and c = 0 and p = node_service_project, THEN conjunct2, THEN conjunct1]
      s(7) num(4) by blast
  have a8_2: "''redis'' \<notin> set (databases (detect node_service_project))"
    using th [where n = "''redis''" and c = 0 and p = node_service_project, THEN conjunct2, THEN conjunct1]
      s(8) num(4) by blast
  have a8_3: "''mocha'' \<notin> set (testing (detect node_service_project))"
    using th [where n = "''mocha''" and c = 0 and p = node_service_project, THEN conjunct2, THEN conjunct1]
      s(9) num(4) by blast
  have a8_4: "''vite'' \<notin> set (buildTools (detect node_service_project))"
    using th [where n = "''vite''" and c = 0 and p = node_service_project, THEN conjunct2, THEN conjunct1]
      s(10) num(4) by blast
  have a8_5: "''kubernetes'' \<notin> set (deployment (detect node_service_project))"
    using th [where n = "''kubernetes''" and c = 0 and p = node_service_project, THEN conjunct2, THEN conjunct1]
      s(11) num(4) by blast
  note a8 = a8_1 a8_2 a8_3 a8_4 a8_5
  have a9: "''nextjs'' \<in> set (frameworks (detect next_project))"
    using th [where n = "''nextjs''" and c = 1 and p = next_project
        and r = "detect next_project", THEN conjunct2, THEN conjunct2, THEN conjunct1, THEN mp, OF ok(3), THEN conjunct2, THEN conjunct2, THEN conjunct2, THEN conjunct1] s(12) num(3) g(3,4)
    by blast
  have t: "confidence threshold_detector empty_evidence = 0.70"
    "confidence below_threshold_detector empty_evidence = 0.69"
    by (simp_all add: threshold_detector_def below_threshold_detector_def)
  have reg: "(''at'', threshold_detector) \<in> set threshold_registry"
    "(''below'', below_threshold_detector) \<in> set threshold_registry"
    "distinct (map fst threshold_registry)"
    by (simp_all add: threshold_registry_def)
  have b1: "''at'' \<in> set (detect_all (\<lambda>cfg. empty_evidence) threshold_registry)"
    using th [where m = "''at''" and cfg = threshold_detector and ds = threshold_registry
        and gather = "\<lambda>cfg. empty_evidence", THEN conjunct2, THEN conjunct2, THEN conjunct2, THEN conjunct1] t(1) reg(1) by blast
  have b2: "''below'' \<notin> set (detect_all (\<lambda>cfg. empty_evidence) threshold_registry)"
    using th [where m = "''below''" and cfg = below_threshold_detector
        and ds = threshold_registry and gather = "\<lambda>cfg. empty_evidence", THEN conjunct2, THEN conjunct2, THEN conjunct2, THEN conjunct1] t(2) reg(2,3)
    by blast
  have b3: "detect_loop (\<lambda>cfg. Inr empty_evidence) threshold_registry = Inr [(''at'', 0.70)]"
    by (simp add: threshold_registry_def t)
  have b4: "detect_all (\<lambda>cfg. empty_evidence) [(''at'', threshold_detector)] = [''at'']"
    "detect_all (\<lambda>cfg. empty_evidence) [(''below'', below_threshold_detector)] = []"
    by (simp_all add: detect_all_def t)
  show ?thesis by (intro conjI; fact)
qed

text \<open>
  C8. \<^verbatim>\<open>detect\<close> returns a result for every project: when anything inside its
  \<^verbatim>\<open>try\<close> block throws, the result is the empty result, in which every list is empty,
  \<^verbatim>\<open>primary\<close> is the empty string and \<^verbatim>\<open>type\<close> is \<^verbatim>\<open>unknown\<close>.
\<close>


theorem detect_failure_returns_empty_result:
  "detect_try p = Inl err \<Longrightarrow>
     detect p = getEmptyResult
     \<and> languages (detect p) = [] \<and> frameworks (detect p) = [] \<and> databases (detect p) = []
     \<and> testing (detect p) = [] \<and> buildTools (detect p) = [] \<and> deployment (detect p) = []
     \<and> stack_patterns (detect p) = [] \<and> packageManagers (detect p) = []
     \<and> arch_patterns (architecture (detect p)) = []
     \<and> primary (detect p) = [] \<and> stack_type (detect p) = ''unknown''"
  by (simp add: detect_def getEmptyResult_def)

theorem detect_failure_returns_empty_result_witness:
  "detect_try numeric_script_project = Inl TypeError
   \<and> detect numeric_script_project = getEmptyResult
   \<and> languages (detect numeric_script_project) = []
   \<and> stack_type (detect numeric_script_project) = ''unknown''"
proof -
  have f: "detect_try numeric_script_project = Inl TypeError" by code_simp
  from detect_failure_returns_empty_result [OF f] f show ?thesis by blast
qed

text \<open>
  C9. The gates \<^verbatim>\<open>isBackendOnly\<close> and \<^verbatim>\<open>isFrontendOnly\<close> that
  \<^verbatim>\<open>determineProjectType\<close> derives are never both true.
\<close>


theorem gates_never_both:
  "\<not> (pt_isBackendOnly (determineProjectType p st packageData)
        \<and> pt_isFrontendOnly (determineProjectType p st packageData))"
  by (simp add: determineProjectType_def Let_def split: prod.splits)

theorem gates_never_both_witness:
  "pt_isBackendOnly (determineProjectType express_project
       (analyzeProjectStructure express_project) (readPackageJson express_project))
   \<and> \<not> pt_isFrontendOnly (determineProjectType express_project
       (analyzeProjectStructure express_project) (readPackageJson express_project))"
proof -
  have "pt_isBackendOnly (determineProjectType express_project
       (analyzeProjectStructure express_project) (readPackageJson express_project))"
    by code_simp
  with gates_never_both [of express_project "analyzeProjectStructure express_project"
      "readPackageJson express_project"]
  show ?thesis by blast
qed

text \<open>
  C10. The empty result of the failure path has architecture type \<^verbatim>\<open>unknown\<close>; a
  result computed without failure has architecture type \<^verbatim>\<open>standard\<close> or
  \<^verbatim>\<open>monorepo\<close>, never \<^verbatim>\<open>unknown\<close>.
\<close>


theorem failure_architecture_type_outside_enum:
  "arch_type (architecture getEmptyResult) = ''unknown''
   \<and> (detect_try p = Inl err \<longrightarrow> arch_type (architecture (detect p)) = ''unknown'')
   \<and> (detect_try p = Inr r \<longrightarrow>
        detect p = r
        \<and> (arch_type (architecture r) = ''standard'' \<or> arch_type (architecture r) = ''monorepo'')
        \<and> arch_type (architecture r) \<noteq> ''unknown'')"
proof -
  have a: "arch_type (architecture getEmptyResult) = ''unknown''"
    by (simp add: getEmptyResult_def)
  have b: "detect_try p = Inl err \<longrightarrow> arch_type (architecture (detect p)) = ''unknown''"
    by (simp add: detect_def getEmptyResult_def)
  have c: "detect_try p = Inr r \<longrightarrow>
        detect p = r
        \<and> (arch_type (architecture r) = ''standard'' \<or> arch_type (architecture r) = ''monorepo'')
        \<and> arch_type (architecture r) \<noteq> ''unknown''"
  proof
    assume s: "detect_try p = Inr r"
    from detect_try_success [OF s] have "architecture r = detect_architecture p" by blast
    with detect_architecture_type [of p] detect_success [OF s]
    show "detect p = r
        \<and> (arch_type (architecture r) = ''standard'' \<or> arch_type (architecture r) = ''monorepo'')
        \<and> arch_type (architecture r) \<noteq> ''unknown''"
      by auto
  qed
  from a b c show ?thesis by blast
qed

theorem failure_architecture_type_outside_enum_witness:
  "detect_try numeric_script_project = Inl TypeError
   \<and> arch_type (architecture (detect numeric_script_project)) = ''unknown''
   \<and> detect_try express_project = Inr (detect express_project)
   \<and> arch_type (architecture (detect express_project)) \<noteq> ''unknown''"
proof -
  have f: "detect_try numeric_script_project = Inl TypeError" by code_simp
  have "detect_try express_project \<noteq> Inl TypeError" by code_simp
  then have s: "detect_try express_project = Inr (detect express_project)"
    using not_thrown [of "detect_try express_project"] by (auto simp: detect_def)
  from failure_architecture_type_outside_enum [of numeric_script_project TypeError]
    failure_architecture_type_outside_enum [of express_project _ "detect express_project"]
    f s
  show ?thesis by simp
qed

end
